theory Spec2Isabelle
  imports Main
begin

section \<open>The breakout-room projection (hook \<open>useFlagshipBreakoutSocket\<close>)\<close>

text \<open>
  The hook keeps a client-side projection of rooms and participants in a React state
  object and a deduplication memory in a ref. The model below follows the TypeScript
  source: interfaces are records, string unions are datatypes, \<open>Map\<close> objects are
  maps, and the ref holding the deduplication \<open>Map\<close> is the list of its keys in
  insertion order (the values are the constant \<open>() => {}\<close> and are never read).
  JavaScript numbers that count participants are integers here. Fields of an interface
  that the modelled code neither reads nor writes (topic, settings, metrics, timestamps
  of a room and the like) are carried along by the object spread and are left out of
  the records.
\<close>

subsection \<open>Data\<close>

datatype room_status = waiting | active | paused | ended

datatype connection_status = connected | connecting | disconnected | error

text \<open>An entry of \<open>BreakoutRoom.participants\<close>.\<close>

record RosterEntry =
  re_id :: string
  re_alias :: string
  re_isConnected :: bool
  re_isMuted :: bool

text \<open>
  Room names are tested for white space, so a name is the list of its UTF-16 code units;
  every other string is only compared or concatenated.
\<close>

type_synonym utf16 = "nat list"

record BreakoutRoom =
  r_id :: string
  r_name :: utf16
  r_sessionId :: string
  r_facilitatorId :: string
  r_participants :: "RosterEntry list"
  r_maxParticipants :: int
  r_currentParticipants :: int
  r_status :: room_status

record BreakoutParticipant =
  p_id :: string
  p_alias :: string
  p_joinedAt :: string

text \<open>An element of \<open>event.data.assignments\<close>.\<close>

record Assignment =
  a_roomId :: string
  a_participant :: "BreakoutParticipant option"

datatype event_type =
    room_created | room_updated | room_deleted
  | participant_joined | participant_left | participant_updated
  | message_received | moderation_action | auto_assignment_completed
  | recording_status_changed | room_status_changed

text \<open>
  \<open>event.data\<close> has type \<open>any\<close>; the record lists the properties the reducer reads,
  each absent (\<open>None\<close>) or present.
\<close>

record EventData =
  d_room :: "BreakoutRoom option"
  d_participant :: "BreakoutParticipant option"
  d_participantCount :: "int option"
  d_participants :: "RosterEntry list option"
  d_assignments :: "Assignment list option"
  d_status :: "room_status option"

record SocketBreakoutEvent =
  e_type :: event_type
  e_sessionId :: string
  e_roomId :: "string option"
  e_participantId :: "string option"
  e_data :: EventData
  e_timestamp :: string

record RealtimeBreakoutState =
  rooms :: "string \<rightharpoonup> BreakoutRoom"
  participants :: "string \<rightharpoonup> BreakoutParticipant"
  currentRoom :: "string option"
  lastUpdate :: string
  connectionStatus :: connection_status
  messageQueue :: "SocketBreakoutEvent list"

record Metrics =
  eventsReceived :: nat
  eventsSent :: nat
  reconnectCount :: nat
  lastEventTime :: "string option"

text \<open>A call of \<open>enhancedSocketService.emit(name, {sessionId, roomId, ...})\<close>.\<close>

datatype outbound = Emit string string "string option"

text \<open>
  Everything the hook owns: the React state, the refs \<open>eventHandlers\<close> (keys in
  insertion order) and \<open>eventBuffer\<close>, the metrics state, and the log of what was
  emitted on the socket.
\<close>

record Hook =
  state :: RealtimeBreakoutState
  eventHandlers :: "string list"
  eventBuffer :: "SocketBreakoutEvent list"
  metrics :: Metrics
  emitted :: "outbound list"

definition initialState :: "string \<Rightarrow> RealtimeBreakoutState" where
  "initialState now =
     \<lparr> rooms = Map.empty, participants = Map.empty, currentRoom = None,
       lastUpdate = now, connectionStatus = disconnected, messageQueue = [] \<rparr>"

definition initialHook :: "string \<Rightarrow> Hook" where
  "initialHook now =
     \<lparr> state = initialState now, eventHandlers = [], eventBuffer = [],
       metrics = \<lparr> eventsReceived = 0, eventsSent = 0, reconnectCount = 0,
                   lastEventTime = None \<rparr>,
       emitted = [] \<rparr>"

subsection \<open>JavaScript truthiness\<close>

text \<open>
  An optional string is truthy when it is present and not the empty string; a number is
  truthy when it is present and not zero. \<open>a || b\<close> is \<open>a\<close> when \<open>a\<close> is truthy.
\<close>

fun truthy :: "string option \<Rightarrow> bool" where
  "truthy None = False"
| "truthy (Some s) = (s \<noteq> [])"

fun strOr :: "string option \<Rightarrow> string \<Rightarrow> string" where
  "strOr None d = d"
| "strOr (Some s) d = (if s = [] then d else s)"

fun numOr :: "int option \<Rightarrow> int \<Rightarrow> int" where
  "numOr None d = d"
| "numOr (Some n) d = (if n = 0 then d else n)"

fun objOr :: "'a option \<Rightarrow> 'a \<Rightarrow> 'a" where
  "objOr None d = d"
| "objOr (Some x) d = x"

subsection \<open>The reducer: \<open>processEvent\<close>\<close>

fun typeName :: "event_type \<Rightarrow> string" where
  "typeName room_created = ''room_created''"
| "typeName room_updated = ''room_updated''"
| "typeName room_deleted = ''room_deleted''"
| "typeName participant_joined = ''participant_joined''"
| "typeName participant_left = ''participant_left''"
| "typeName participant_updated = ''participant_updated''"
| "typeName message_received = ''message_received''"
| "typeName moderation_action = ''moderation_action''"
| "typeName auto_assignment_completed = ''auto_assignment_completed''"
| "typeName recording_status_changed = ''recording_status_changed''"
| "typeName room_status_changed = ''room_status_changed''"

text \<open>\<open>`${event.type}_${event.roomId || 'global'}_${event.timestamp}`\<close>\<close>

definition eventKey :: "SocketBreakoutEvent \<Rightarrow> string" where
  "eventKey e = typeName (e_type e) @ ''_'' @ strOr (e_roomId e) ''global'' @ ''_'' @ e_timestamp e"

text \<open>
  The clean-up after a key was stored: when the memory holds more than 1000 keys, the
  first 500 keys in insertion order are deleted one by one.
\<close>

definition cleanup :: "string list \<Rightarrow> string list" where
  "cleanup ks =
     (if length ks > 1000 then filter (\<lambda>k. k \<notin> set (take 500 ks)) ks else ks)"

text \<open>One iteration of \<open>event.data.assignments.forEach\<close>.\<close>

definition assignOne :: "RealtimeBreakoutState \<Rightarrow> Assignment \<Rightarrow> RealtimeBreakoutState" where
  "assignOne s a =
     (case rooms s (a_roomId a) of
        None \<Rightarrow> s
      | Some room \<Rightarrow>
          (case a_participant a of
             None \<Rightarrow> s
           | Some p \<Rightarrow> s\<lparr>participants := (participants s)(p_id p \<mapsto> p)\<rparr>))"

text \<open>The \<open>switch\<close> of the state updater, before \<open>lastUpdate\<close> is set.\<close>

fun foldEvent :: "event_type \<Rightarrow> SocketBreakoutEvent \<Rightarrow> RealtimeBreakoutState \<Rightarrow> RealtimeBreakoutState" where
  "foldEvent room_created e s =
     (case d_room (e_data e) of
        None \<Rightarrow> s
      | Some room \<Rightarrow> s\<lparr>rooms := (rooms s)(r_id room \<mapsto> room)\<rparr>)"
| "foldEvent room_updated e s =
     (case d_room (e_data e) of
        None \<Rightarrow> s
      | Some room \<Rightarrow> s\<lparr>rooms := (rooms s)(r_id room \<mapsto> room)\<rparr>)"
| "foldEvent room_deleted e s =
     (if truthy (e_roomId e)
      then s\<lparr>rooms := (rooms s)(the (e_roomId e) := None),
             currentRoom := (if currentRoom s = e_roomId e then None else currentRoom s)\<rparr>
      else s)"
| "foldEvent participant_joined e s =
     (case d_participant (e_data e) of
        None \<Rightarrow> s
      | Some p \<Rightarrow>
          if truthy (e_roomId e)
          then (let s1 = s\<lparr>participants := (participants s)(p_id p \<mapsto> p)\<rparr>;
                    rid = the (e_roomId e)
                in case rooms s1 rid of
                     None \<Rightarrow> s1
                   | Some room \<Rightarrow>
                       s1\<lparr>rooms := (rooms s1)(rid \<mapsto> room
                            \<lparr>r_participants := objOr (d_participants (e_data e)) (r_participants room),
                             r_currentParticipants :=
                               numOr (d_participantCount (e_data e)) (r_currentParticipants room)\<rparr>)\<rparr>)
          else s)"
| "foldEvent participant_updated e s =
     (case d_participant (e_data e) of
        None \<Rightarrow> s
      | Some p \<Rightarrow>
          if truthy (e_roomId e)
          then (let s1 = s\<lparr>participants := (participants s)(p_id p \<mapsto> p)\<rparr>;
                    rid = the (e_roomId e)
                in case rooms s1 rid of
                     None \<Rightarrow> s1
                   | Some room \<Rightarrow>
                       s1\<lparr>rooms := (rooms s1)(rid \<mapsto> room
                            \<lparr>r_participants := objOr (d_participants (e_data e)) (r_participants room),
                             r_currentParticipants :=
                               numOr (d_participantCount (e_data e)) (r_currentParticipants room)\<rparr>)\<rparr>)
          else s)"
| "foldEvent participant_left e s =
     (if truthy (e_participantId e) \<and> truthy (e_roomId e)
      then (let pid = the (e_participantId e);
                rid = the (e_roomId e);
                s1 = s\<lparr>participants := (participants s)(pid := None)\<rparr>
            in case rooms s1 rid of
                 None \<Rightarrow> s1
               | Some room \<Rightarrow>
                   s1\<lparr>rooms := (rooms s1)(rid \<mapsto> room
                        \<lparr>r_participants := filter (\<lambda>p. re_id p \<noteq> pid) (r_participants room),
                         r_currentParticipants := max 0 (r_currentParticipants room - 1)\<rparr>)\<rparr>)
      else s)"
| "foldEvent auto_assignment_completed e s =
     (case d_assignments (e_data e) of
        None \<Rightarrow> s
      | Some as \<Rightarrow> foldl assignOne s as)"
| "foldEvent room_status_changed e s =
     (case d_status (e_data e) of
        None \<Rightarrow> s
      | Some st \<Rightarrow>
          if truthy (e_roomId e)
          then (case rooms s (the (e_roomId e)) of
                  None \<Rightarrow> s
                | Some room \<Rightarrow> s\<lparr>rooms := (rooms s)(the (e_roomId e) \<mapsto> room\<lparr>r_status := st\<rparr>)\<rparr>)
          else s)"
| "foldEvent message_received e s = s"
| "foldEvent moderation_action e s = s"
| "foldEvent recording_status_changed e s = s"

text \<open>The function passed to \<open>setState\<close>.\<close>

definition applyEvent :: "SocketBreakoutEvent \<Rightarrow> RealtimeBreakoutState \<Rightarrow> RealtimeBreakoutState" where
  "applyEvent e s = (foldEvent (e_type e) e s)\<lparr>lastUpdate := e_timestamp e\<rparr>"

text \<open>
  \<open>processEvent\<close>: a key already in the memory ends the call; otherwise the key is
  stored, the memory cleaned up, the state updated and, with analytics enabled, the
  metrics counted.
\<close>

definition processEvent :: "bool \<Rightarrow> SocketBreakoutEvent \<Rightarrow> Hook \<Rightarrow> Hook" where
  "processEvent enableAnalytics e h =
     (if eventKey e \<in> set (eventHandlers h) then h
      else h\<lparr>eventHandlers := cleanup (eventHandlers h @ [eventKey e]),
             state := applyEvent e (state h),
             metrics := (if enableAnalytics
                         then (metrics h)\<lparr>eventsReceived := eventsReceived (metrics h) + 1,
                                          lastEventTime := Some (e_timestamp e)\<rparr>
                         else metrics h)\<rparr>)"

text \<open>Feeding a sequence of events in arrival order.\<close>

definition processEvents :: "bool \<Rightarrow> SocketBreakoutEvent list \<Rightarrow> Hook \<Rightarrow> Hook" where
  "processEvents enableAnalytics es h = foldl (\<lambda>h e. processEvent enableAnalytics e h) h es"

text \<open>\<open>clearCache\<close> of the returned object.\<close>

definition clearCache :: "Hook \<Rightarrow> Hook" where
  "clearCache h =
     h\<lparr>state := (state h)\<lparr>rooms := Map.empty, participants := Map.empty, messageQueue := []\<rparr>,
       eventBuffer := [],
       eventHandlers := []\<rparr>"

subsection \<open>Operations returned by the hook\<close>

text \<open>
  The guarded operations throw \<open>Error('Socket not connected')\<close>; the operations are
  \<open>async\<close>, so the throw is a rejected promise, here the left summand. Of an emitted
  payload the log keeps the event name, the session and the room; the remaining
  properties (configuration, updates, message, timestamp) are opaque values handed
  through.
\<close>

datatype hook_error = SocketNotConnected

definition emit :: "string \<Rightarrow> string \<Rightarrow> string option \<Rightarrow> Hook \<Rightarrow> Hook" where
  "emit name sessionId roomId h = h\<lparr>emitted := emitted h @ [Emit name sessionId roomId]\<rparr>"

definition countSent :: "bool \<Rightarrow> Hook \<Rightarrow> Hook" where
  "countSent enableAnalytics h =
     (if enableAnalytics
      then h\<lparr>metrics := (metrics h)\<lparr>eventsSent := eventsSent (metrics h) + 1\<rparr>\<rparr>
      else h)"

definition setupEventListeners :: "Hook \<Rightarrow> Hook" where
  "setupEventListeners h = h\<lparr>state := (state h)\<lparr>connectionStatus := connected\<rparr>\<rparr>"

definition disconnect :: "string \<Rightarrow> Hook \<Rightarrow> Hook" where
  "disconnect sessionId h =
     (emit ''leave_breakout_session'' sessionId None h)
       \<lparr>state := (state h)\<lparr>connectionStatus := disconnected\<rparr>\<rparr>"

text \<open>
  \<open>createRoom\<close>, \<open>joinRoom\<close>, \<open>leaveRoom\<close> and \<open>sendMessage\<close> are memoised:
  \<open>useCallback(..., [sessionId, enableAnalytics])\<close>. Such a callback closes over the
  \<open>sessionId\<close>, the \<open>enableAnalytics\<close> and the \<open>state\<close> of the render that created
  it, and a later render creates it anew only when \<open>sessionId\<close> or
  \<open>enableAnalytics\<close> has changed. The \<open>state\<close> is not in the dependency list, so
  the status the guard tests is the one of that render, not the current one. What the
  callback writes goes through \<open>setState(prev => ...)\<close> and so to the current state.
\<close>

record Closure =
  cb_sessionId :: string
  cb_enableAnalytics :: bool
  cb_state :: RealtimeBreakoutState

text \<open>
  One render: the closure of the previous render (none at the first render) is kept when
  both dependencies are unchanged.
\<close>

definition useCallback ::
  "Closure option \<Rightarrow> string \<Rightarrow> bool \<Rightarrow> RealtimeBreakoutState \<Rightarrow> Closure" where
  "useCallback previous sessionId enableAnalytics s =
     (case previous of
        None \<Rightarrow> \<lparr> cb_sessionId = sessionId, cb_enableAnalytics = enableAnalytics, cb_state = s \<rparr>
      | Some cb \<Rightarrow>
          if cb_sessionId cb = sessionId \<and> cb_enableAnalytics cb = enableAnalytics then cb
          else \<lparr> cb_sessionId = sessionId, cb_enableAnalytics = enableAnalytics, cb_state = s \<rparr>)"

definition createRoom :: "Closure \<Rightarrow> Hook \<Rightarrow> hook_error + Hook" where
  "createRoom cb h =
     (if connectionStatus (cb_state cb) \<noteq> connected then Inl SocketNotConnected
      else Inr (countSent (cb_enableAnalytics cb)
             (emit ''create_breakout_room'' (cb_sessionId cb) None h)))"

definition joinRoom :: "Closure \<Rightarrow> string \<Rightarrow> Hook \<Rightarrow> hook_error + Hook" where
  "joinRoom cb roomId h =
     (if connectionStatus (cb_state cb) \<noteq> connected then Inl SocketNotConnected
      else Inr (countSent (cb_enableAnalytics cb)
             ((emit ''join_breakout_room'' (cb_sessionId cb) (Some roomId) h)
                \<lparr>state := (state h)\<lparr>currentRoom := Some roomId\<rparr>\<rparr>)))"

definition leaveRoom :: "Closure \<Rightarrow> string \<Rightarrow> Hook \<Rightarrow> hook_error + Hook" where
  "leaveRoom cb roomId h =
     (if connectionStatus (cb_state cb) \<noteq> connected then Inl SocketNotConnected
      else Inr (countSent (cb_enableAnalytics cb)
             ((emit ''leave_breakout_room'' (cb_sessionId cb) (Some roomId) h)
                \<lparr>state := (state h)\<lparr>currentRoom :=
                    (if currentRoom (state h) = Some roomId then None
                     else currentRoom (state h))\<rparr>\<rparr>)))"

definition sendMessage :: "Closure \<Rightarrow> string \<Rightarrow> Hook \<Rightarrow> hook_error + Hook" where
  "sendMessage cb roomId h =
     (if connectionStatus (cb_state cb) \<noteq> connected then Inl SocketNotConnected
      else Inr (countSent (cb_enableAnalytics cb)
             (emit ''send_breakout_message'' (cb_sessionId cb) (Some roomId) h)))"

text \<open>
  The operations written inline in the returned object. They are created by every render
  and read no state.
\<close>

definition updateRoom :: "string \<Rightarrow> string \<Rightarrow> Hook \<Rightarrow> hook_error + Hook" where
  "updateRoom sessionId roomId h = Inr (emit ''update_breakout_room'' sessionId (Some roomId) h)"

definition deleteRoom :: "string \<Rightarrow> string \<Rightarrow> Hook \<Rightarrow> hook_error + Hook" where
  "deleteRoom sessionId roomId h = Inr (emit ''delete_breakout_room'' sessionId (Some roomId) h)"

definition updateParticipant :: "string \<Rightarrow> string \<Rightarrow> string \<Rightarrow> Hook \<Rightarrow> hook_error + Hook" where
  "updateParticipant sessionId roomId participantId h =
     Inr (emit ''update_breakout_participant'' sessionId (Some roomId) h)"

definition moderateParticipant :: "string \<Rightarrow> string \<Rightarrow> Hook \<Rightarrow> hook_error + Hook" where
  "moderateParticipant sessionId roomId h =
     Inr (emit ''moderate_breakout_participant'' sessionId (Some roomId) h)"

definition sendReaction :: "string \<Rightarrow> string \<Rightarrow> Hook \<Rightarrow> hook_error + Hook" where
  "sendReaction sessionId roomId h = Inr (emit ''send_breakout_reaction'' sessionId (Some roomId) h)"

text \<open>
  The derived \<open>currentRoom\<close> of the returned object:
  \<open>state.currentRoom ? state.rooms.get(state.currentRoom) || null : null\<close>.
\<close>

definition returnedCurrentRoom :: "RealtimeBreakoutState \<Rightarrow> BreakoutRoom option" where
  "returnedCurrentRoom s =
     (if truthy (currentRoom s) then rooms s (the (currentRoom s)) else None)"

subsection \<open>Predicates used in the statements\<close>

text \<open>The deduplication memory has distinct keys, as a \<open>Map\<close> has, and at most 1000.\<close>

definition dedupInv :: "Hook \<Rightarrow> bool" where
  "dedupInv h = (distinct (eventHandlers h) \<and> length (eventHandlers h) \<le> 1000)"

text \<open>A hook that has folded nothing yet: empty maps, empty queue, empty memory.\<close>

definition freshProjection :: "Hook \<Rightarrow> bool" where
  "freshProjection h =
     (rooms (state h) = Map.empty \<and> participants (state h) = Map.empty \<and>
      messageQueue (state h) = [] \<and> eventHandlers h = [])"

section \<open>The breakout service (class \<open>FlagshipBreakoutService\<close>)\<close>

text \<open>
  \<open>createBreakoutRoom\<close> talks to collaborators that are not part of the class: the
  socket service, the permission check, the REST clients and the timer. Their answers
  are the fields of an environment record; every call made to them is appended to a
  trace, so that what is called, and in which order, can be stated. Logging, the room
  cache and the connection counters of the class are not part of the model.
\<close>

subsection \<open>Strings\<close>

definition ascii :: "string \<Rightarrow> utf16" where
  "ascii s = map of_char s"

text \<open>
  The code units \<open>String.prototype.trim\<close> removes: ECMAScript's WhiteSpace and
  LineTerminator, all of them in the basic plane.
\<close>

definition isWhiteSpace :: "nat \<Rightarrow> bool" where
  "isWhiteSpace u =
     (u = 0x09 \<or> u = 0x0A \<or> u = 0x0B \<or> u = 0x0C \<or> u = 0x0D \<or> u = 0x20 \<or> u = 0xA0 \<or>
      u = 0x1680 \<or> (0x2000 \<le> u \<and> u \<le> 0x200A) \<or> u = 0x2028 \<or> u = 0x2029 \<or>
      u = 0x202F \<or> u = 0x205F \<or> u = 0x3000 \<or> u = 0xFEFF)"

definition trim :: "utf16 \<Rightarrow> utf16" where
  "trim s = rev (dropWhile isWhiteSpace (rev (dropWhile isWhiteSpace s)))"

fun startsWith :: "string \<Rightarrow> string \<Rightarrow> bool" where
  "startsWith s [] = True"
| "startsWith [] (p # ps) = False"
| "startsWith (c # cs) (p # ps) = (c = p \<and> startsWith cs ps)"

fun includesStr :: "string \<Rightarrow> string \<Rightarrow> bool" where
  "includesStr [] p = (p = [])"
| "includesStr (c # cs) p = (startsWith (c # cs) p \<or> includesStr cs p)"

definition toLowerAscii :: "char \<Rightarrow> char" where
  "toLowerAscii c =
     (let n = (of_char c :: nat) in if 65 \<le> n \<and> n \<le> 90 then char_of (n + 32) else c)"

text \<open>\<open>/404|Not Found/i.test(s)\<close>\<close>

definition matches404 :: "string \<Rightarrow> bool" where
  "matches404 s = (includesStr s ''404'' \<or> includesStr (map toLowerAscii s) ''not found'')"

definition digit :: "nat \<Rightarrow> char" where
  "digit d = char_of (48 + d)"

fun showNat :: "nat \<Rightarrow> string" where
  "showNat n = (if n < 10 then [digit n] else showNat (n div 10) @ [digit (n mod 10)])"

subsection \<open>Collaborators\<close>

record CreateRoomConfig =
  c_name :: utf16
  c_topic :: "string option"
  c_maxParticipants :: int
  c_duration :: int
  c_facilitatorId :: string

text \<open>\<open>{ success: true, room }\<close> or \<open>{ success: false, error }\<close>.\<close>

datatype create_result = Success "BreakoutRoom option" | Failure string

datatype action =
    FetchDebugPermissions string
  | ValidateSessionPermissions string
  | DebugBreakoutRoomPermissions string
  | SetTimeout nat
  | ClearTimeout
  | SocketOn string
  | SocketOff string
  | SocketCreateBreakoutRoom string utf16
  | BackendCreateBreakoutRoom string utf16
  | ApiCreateBreakoutRoom string utf16
  | FetchLegacyCreate string utf16
  | GetBreakoutRooms string
  | Sleep nat

text \<open>
  What the socket delivers to the two listeners: \<open>breakout_room_created\<close> with
  \<open>data.sessionId\<close> and \<open>data.room\<close>, or \<open>breakout_room_create_error\<close> with
  \<open>err.message\<close>.
\<close>

datatype inbound = RoomCreated "string option" "BreakoutRoom option" | RoomCreateError "string option"

text \<open>The answer of \<open>flagshipBreakoutBackend.createBreakoutRoom\<close>.\<close>

record BackendResult =
  b_success :: bool
  b_room :: "BreakoutRoom option"
  b_error :: "string option"

text \<open>
  The answer of \<open>FlagshipSanctuaryApi.createBreakoutRoom\<close>: on success the room found
  under \<open>res.room || res.data?.room || res.data\<close>, otherwise \<open>res.error\<close> when it is
  a string.
\<close>

datatype api_result = ApiSuccess "BreakoutRoom option" | ApiFailure "string option"

text \<open>
  The legacy \<open>fetch\<close>: rejected, or a response with \<open>ok\<close>, \<open>status\<close>,
  \<open>statusText\<close> and the room of its body.
\<close>

datatype legacy_response =
    LegacyRejected string
  | LegacyResponse bool nat string "BreakoutRoom option"

text \<open>The answer of one \<open>getBreakoutRooms\<close> call, which catches all its errors.\<close>

datatype list_result = ListOk "BreakoutRoom list" | ListFailed string

text \<open>
  \<open>inbound\<close> is what arrives on the socket after the create request, in arrival
  order, each with the milliseconds elapsed since the timer was set.
  \<open>listAnswers i\<close> is the answer to the \<open>i\<close>-th list query.
\<close>

record Env =
  permissionValid :: bool
  permissionError :: "string option"
  socketConnected :: bool
  inbound :: "(nat \<times> inbound) list"
  authToken :: "string option"
  tokenValid :: bool
  backendRes :: BackendResult
  apiRes :: api_result
  legacyResp :: legacy_response
  listAnswers :: "nat \<Rightarrow> list_result"

subsection \<open>\<open>pollForRoomByName\<close>\<close>

text \<open>\<open>resp.rooms.find(r => r.name === name)\<close> on a successful answer.\<close>

fun findByName :: "utf16 \<Rightarrow> list_result \<Rightarrow> BreakoutRoom option" where
  "findByName name (ListOk rs) = find (\<lambda>r. r_name r = name) rs"
| "findByName name (ListFailed err) = None"

function pollLoop ::
  "(nat \<Rightarrow> list_result) \<Rightarrow> string \<Rightarrow> utf16 \<Rightarrow> nat \<Rightarrow> nat \<Rightarrow> nat \<Rightarrow> BreakoutRoom option \<times> action list"
where
  "pollLoop answers sessionId name maxAttempts intervalMs attempt =
     (if attempt < maxAttempts
      then (case findByName name (answers attempt) of
              Some match \<Rightarrow> (Some match, [GetBreakoutRooms sessionId])
            | None \<Rightarrow>
                (let (r, tr) = pollLoop answers sessionId name maxAttempts intervalMs (attempt + 1)
                 in (r, GetBreakoutRooms sessionId # Sleep intervalMs # tr)))
      else (None, []))"
  by pat_completeness auto
termination
  by (relation "measure (\<lambda>(answers, sessionId, name, maxAttempts, intervalMs, attempt).
        maxAttempts - attempt)") auto

definition pollForRoomByName ::
  "Env \<Rightarrow> string \<Rightarrow> utf16 \<Rightarrow> nat \<Rightarrow> nat \<Rightarrow> BreakoutRoom option \<times> action list" where
  "pollForRoomByName env sessionId name maxAttempts intervalMs =
     pollLoop (listAnswers env) sessionId name maxAttempts intervalMs 0"

subsection \<open>\<open>createRoomViaAPI\<close>\<close>

text \<open>
  The private REST path. A thrown \<open>Error\<close> is the left summand, carrying its message.
\<close>

definition legacyFallback ::
  "Env \<Rightarrow> string \<Rightarrow> CreateRoomConfig \<Rightarrow> (string + create_result) \<times> action list" where
  "legacyFallback env sessionId roomConfig =
     (case legacyResp env of
        LegacyRejected msg \<Rightarrow> (Inl msg, [FetchLegacyCreate sessionId (c_name roomConfig)])
      | LegacyResponse ok status statusText room \<Rightarrow>
          if ok then (Inr (Success room), [FetchLegacyCreate sessionId (c_name roomConfig)])
          else (let (possiblyCreated, tr) =
                      pollForRoomByName env sessionId (c_name roomConfig) 6 1000
                in case possiblyCreated of
                     Some r \<Rightarrow>
                       (Inr (Success (Some r)), FetchLegacyCreate sessionId (c_name roomConfig) # tr)
                   | None \<Rightarrow>
                       (Inl (''HTTP '' @ showNat status @ '': '' @ statusText),
                        FetchLegacyCreate sessionId (c_name roomConfig) # tr)))"

definition createRoomViaAPI ::
  "Env \<Rightarrow> string \<Rightarrow> CreateRoomConfig \<Rightarrow> (string + create_result) \<times> action list" where
  "createRoomViaAPI env sessionId roomConfig =
     (if \<not> truthy (authToken env) then (Inl ''No authentication token available'', [])
      else if \<not> tokenValid env then (Inl ''Authentication token is invalid or expired'', [])
      else if b_success (backendRes env) \<and> b_room (backendRes env) \<noteq> None
      then (Inr (Success (b_room (backendRes env))),
            [BackendCreateBreakoutRoom sessionId (c_name roomConfig)])
      else (case apiRes env of
              ApiSuccess room \<Rightarrow>
                (Inr (Success room),
                 [BackendCreateBreakoutRoom sessionId (c_name roomConfig),
                  ApiCreateBreakoutRoom sessionId (c_name roomConfig)])
            | ApiFailure err \<Rightarrow>
                if (case err of None \<Rightarrow> False | Some msg \<Rightarrow> matches404 msg)
                then (let (res, tr) = legacyFallback env sessionId roomConfig
                      in (res, BackendCreateBreakoutRoom sessionId (c_name roomConfig) #
                               ApiCreateBreakoutRoom sessionId (c_name roomConfig) # tr))
                else (Inl (strOr err ''API returned failure creating room''),
                      [BackendCreateBreakoutRoom sessionId (c_name roomConfig),
                       ApiCreateBreakoutRoom sessionId (c_name roomConfig)])))"

subsection \<open>\<open>createBreakoutRoom\<close>\<close>

text \<open>The two checks at the head of the \<open>try\<close> block; the message of the thrown error.\<close>

definition validateConfig :: "CreateRoomConfig \<Rightarrow> string option" where
  "validateConfig roomConfig =
     (if trim (c_name roomConfig) = [] then Some ''Room name is required''
      else if c_maxParticipants roomConfig < 2 \<or> c_maxParticipants roomConfig > 20
      then Some ''Max participants must be between 2 and 20''
      else None)"

text \<open>
  The promise that waits for the acknowledgment. The timer set to 8000 ms fires before
  anything that arrives at 8000 ms or later; a \<open>breakout_room_created\<close> for another
  session or another name is ignored.
\<close>

fun awaitAck :: "string \<Rightarrow> utf16 \<Rightarrow> (nat \<times> inbound) list \<Rightarrow> create_result \<times> action list" where
  "awaitAck sessionId name [] =
     (Failure ''Timed out waiting for server acknowledgment'',
      [SocketOff ''breakout_room_created'', SocketOff ''breakout_room_create_error''])"
| "awaitAck sessionId name ((t, RoomCreated sid room) # rest) =
     (if 8000 \<le> t
      then (Failure ''Timed out waiting for server acknowledgment'',
            [SocketOff ''breakout_room_created'', SocketOff ''breakout_room_create_error''])
      else if sid = Some sessionId \<and> room \<noteq> None \<and> r_name (the room) = name
      then (Success room,
            [ClearTimeout, SocketOff ''breakout_room_created'',
             SocketOff ''breakout_room_create_error''])
      else awaitAck sessionId name rest)"
| "awaitAck sessionId name ((t, RoomCreateError msg) # rest) =
     (if 8000 \<le> t
      then (Failure ''Timed out waiting for server acknowledgment'',
            [SocketOff ''breakout_room_created'', SocketOff ''breakout_room_create_error''])
      else (Failure (strOr msg ''Server reported creation error''),
            [ClearTimeout, SocketOff ''breakout_room_created'',
             SocketOff ''breakout_room_create_error'']))"

text \<open>
  Modelled from the spec: \<open>debugBreakoutRoomPermissions\<close> of the module
  \<open>@/utils/debugBreakoutPermissions\<close>, which the \<open>catch\<close> block and the refused
  permission check call and which is not among the sources. The spec has a failed
  validation end "without any network call" and names no call of a debug analysis among
  the network calls of \<open>createRoom\<close>; the analysis is therefore one local diagnostic
  step, recorded in the trace, that reaches no network.
\<close>

definition debugBreakoutRoomPermissions :: "string \<Rightarrow> action list" where
  "debugBreakoutRoomPermissions sessionId = [DebugBreakoutRoomPermissions sessionId]"


text \<open>The \<open>catch\<close> block: the debug analysis runs, then the error becomes a result.\<close>

definition catchBlock :: "string \<Rightarrow> string \<Rightarrow> create_result \<times> action list" where
  "catchBlock sessionId msg = (Failure msg, debugBreakoutRoomPermissions sessionId)"

text \<open>The REST path as called from \<open>createBreakoutRoom\<close>, inside its \<open>try\<close>.\<close>

definition restPath :: "Env \<Rightarrow> string \<Rightarrow> CreateRoomConfig \<Rightarrow> create_result \<times> action list" where
  "restPath env sessionId roomConfig =
     (case createRoomViaAPI env sessionId roomConfig of
        (Inr res, tr) \<Rightarrow> (res, tr)
      | (Inl msg, tr) \<Rightarrow> (Failure msg, tr @ snd (catchBlock sessionId msg)))"

definition createBreakoutRoom :: "Env \<Rightarrow> string \<Rightarrow> CreateRoomConfig \<Rightarrow> create_result \<times> action list" where
  "createBreakoutRoom env sessionId roomConfig =
     (case validateConfig roomConfig of
        Some msg \<Rightarrow> catchBlock sessionId msg
      | None \<Rightarrow>
          if \<not> permissionValid env
          then (Failure (strOr (permissionError env)
                           ''Insufficient permissions to create breakout rooms''),
                [FetchDebugPermissions sessionId, ValidateSessionPermissions sessionId]
                @ debugBreakoutRoomPermissions sessionId)
          else if socketConnected env
          then (let (result, tr) = awaitAck sessionId (c_name roomConfig) (inbound env);
                    request = [FetchDebugPermissions sessionId, ValidateSessionPermissions sessionId,
                               SetTimeout 8000, SocketOn ''breakout_room_created'',
                               SocketOn ''breakout_room_create_error'',
                               SocketCreateBreakoutRoom sessionId (c_name roomConfig)]
                in case result of
                     Success room \<Rightarrow> (Success room, request @ tr)
                   | Failure err \<Rightarrow>
                       (let (res, tr') = restPath env sessionId roomConfig
                        in (res, request @ tr @ tr')))
          else (let (res, tr') = restPath env sessionId roomConfig
                in (res, [FetchDebugPermissions sessionId, ValidateSessionPermissions sessionId] @ tr')))"

subsection \<open>Predicates on what the socket delivers\<close>

text \<open>
  An event that ends the wait: a \<open>breakout_room_created\<close> for this session and this
  room name, or any \<open>breakout_room_create_error\<close>.
\<close>

fun settles :: "string \<Rightarrow> utf16 \<Rightarrow> inbound \<Rightarrow> bool" where
  "settles sessionId name (RoomCreated sid room) =
     (sid = Some sessionId \<and> room \<noteq> None \<and> r_name (the room) = name)"
| "settles sessionId name (RoomCreateError msg) = True"

text \<open>Events that all arrive within the 8 seconds and do not end the wait.\<close>

definition quietBefore :: "string \<Rightarrow> utf16 \<Rightarrow> (nat \<times> inbound) list \<Rightarrow> bool" where
  "quietBefore sessionId name evs =
     list_all (\<lambda>(t, ev). t < 8000 \<and> \<not> settles sessionId name ev) evs"

text \<open>Nothing that arrives before the timer fires ends the wait.\<close>

definition noAckInTime :: "string \<Rightarrow> utf16 \<Rightarrow> (nat \<times> inbound) list \<Rightarrow> bool" where
  "noAckInTime sessionId name evs =
     list_all (\<lambda>(t, ev). \<not> settles sessionId name ev) (takeWhile (\<lambda>(t, ev). t < 8000) evs)"

section \<open>Sample values\<close>

text \<open>Concrete rooms, events and configurations at which the statements are instantiated.\<close>

definition noData :: EventData where
  "noData = \<lparr> d_room = None, d_participant = None, d_participantCount = None,
              d_participants = None, d_assignments = None, d_status = None \<rparr>"

definition alice :: RosterEntry where
  "alice = \<lparr> re_id = ''u1'', re_alias = ''alice'', re_isConnected = True, re_isMuted = False \<rparr>"

definition bob :: RosterEntry where
  "bob = \<lparr> re_id = ''u2'', re_alias = ''bob'', re_isConnected = True, re_isMuted = True \<rparr>"

definition bobRecord :: BreakoutParticipant where
  "bobRecord = \<lparr> p_id = ''u2'', p_alias = ''bob'', p_joinedAt = ''t0'' \<rparr>"

definition focusRoom :: BreakoutRoom where
  "focusRoom = \<lparr> r_id = ''r1'', r_name = ascii ''Focus'', r_sessionId = ''s1'',
                 r_facilitatorId = ''u1'', r_participants = [alice, bob],
                 r_maxParticipants = 6, r_currentParticipants = 2, r_status = active \<rparr>"

definition roomCreatedEvent :: SocketBreakoutEvent where
  "roomCreatedEvent = \<lparr> e_type = room_created, e_sessionId = ''s1'', e_roomId = Some ''r1'',
       e_participantId = None, e_data = noData\<lparr>d_room := Some focusRoom\<rparr>, e_timestamp = ''t1'' \<rparr>"

definition aliceLeftEvent :: SocketBreakoutEvent where
  "aliceLeftEvent = \<lparr> e_type = participant_left, e_sessionId = ''s1'', e_roomId = Some ''r1'',
       e_participantId = Some ''u1'', e_data = noData, e_timestamp = ''t2'' \<rparr>"

text \<open>The server reports that the room is now empty: a count of 0 and an empty roster.\<close>

definition roomEmptiedEvent :: SocketBreakoutEvent where
  "roomEmptiedEvent = \<lparr> e_type = participant_updated, e_sessionId = ''s1'', e_roomId = Some ''r1'',
       e_participantId = Some ''u2'',
       e_data = noData\<lparr>d_participant := Some bobRecord, d_participantCount := Some 0,
                       d_participants := Some []\<rparr>,
       e_timestamp = ''t3'' \<rparr>"

text \<open>The hook after its first event, the creation of the room.\<close>

definition hookWithRoom :: Hook where
  "hookWithRoom = processEvent True roomCreatedEvent (initialHook ''t0'')"

text \<open>1001 events with pairwise different timestamps.\<close>

definition tick :: "nat \<Rightarrow> SocketBreakoutEvent" where
  "tick n = \<lparr> e_type = message_received, e_sessionId = ''s1'', e_roomId = None,
       e_participantId = None, e_data = noData, e_timestamp = replicate n (CHR ''i'') \<rparr>"

definition burst :: "SocketBreakoutEvent list" where
  "burst = map tick [0..<1001]"

definition focusConfig :: CreateRoomConfig where
  "focusConfig = \<lparr> c_name = ascii ''Focus'', c_topic = None, c_maxParticipants = 6,
                   c_duration = 15, c_facilitatorId = ''u1'' \<rparr>"


definition otherRoom :: BreakoutRoom where
  "otherRoom = focusRoom\<lparr>r_id := ''r2'', r_name := ascii ''Other''\<rparr>"

text \<open>
  A connected socket on which the acknowledgment arrives after 350 ms, behind a
  creation event for another room.
\<close>

definition ackEnv :: Env where
  "ackEnv = \<lparr> permissionValid = True, permissionError = None, socketConnected = True,
       inbound = [(120, RoomCreated (Some ''s1'') (Some otherRoom)),
                  (350, RoomCreated (Some ''s1'') (Some focusRoom))],
       authToken = Some ''token'', tokenValid = True,
       backendRes = \<lparr> b_success = False, b_room = None, b_error = Some ''HTTP 404'' \<rparr>,
       apiRes = ApiFailure (Some ''HTTP 404: Not Found''),
       legacyResp = LegacyResponse False 500 ''Internal Server Error'' None,
       listAnswers = (\<lambda>i. if i = 1 then ListOk [otherRoom, focusRoom] else ListOk [otherRoom]) \<rparr>"

text \<open>The same, but the acknowledgment arrives too late, after 9 seconds.\<close>

definition lateEnv :: Env where
  "lateEnv = ackEnv\<lparr>inbound := [(120, RoomCreated (Some ''s1'') (Some otherRoom)),
                                 (9000, RoomCreated (Some ''s1'') (Some focusRoom))]\<rparr>"

text \<open>The same as the first, but the permission check refuses.\<close>

definition deniedEnv :: Env where
  "deniedEnv = ackEnv\<lparr>permissionValid := False, permissionError := Some ''Not a host''\<rparr>"

text \<open>The same as the first, but the legacy request is rejected: no HTTP answer.\<close>

definition rejectedEnv :: Env where
  "rejectedEnv = ackEnv\<lparr>legacyResp := LegacyRejected ''Failed to fetch''\<rparr>"

text \<open>
  A hook of session \<open>s1\<close>: the closure of its first render, the hook once connected,
  and the closure of a later render that finds \<open>enableAnalytics\<close> switched off while
  the hook is connected.
\<close>

definition firstClosure :: Closure where
  "firstClosure = useCallback None ''s1'' True (state (initialHook ''t0''))"

definition connectedHook :: Hook where
  "connectedHook = setupEventListeners (initialHook ''t0'')"

definition laterClosure :: Closure where
  "laterClosure = useCallback (Some firstClosure) ''s1'' False (state connectedHook)"

text \<open>The connected hook after \<open>joinRoom('r9')\<close> of the later closure.\<close>

definition joinedHook :: Hook where
  "joinedHook =
     (emit ''join_breakout_room'' ''s1'' (Some ''r9'') connectedHook)
       \<lparr>state := (state connectedHook)\<lparr>currentRoom := Some ''r9''\<rparr>\<rparr>"

section \<open>The reducer: deduplication and folding\<close>

lemma key_kept: "k \<notin> set ks \<Longrightarrow> k \<in> set (cleanup (ks @ [k]))"
proof (cases "length (ks @ [k]) > 1000")
  case False
  then show ?thesis by (simp add: cleanup_def)
next
  case True
  assume nin: "k \<notin> set ks"
  from True have "take 500 (ks @ [k]) = take 500 ks" by simp
  moreover have "k \<notin> set (take 500 ks)" using nin by (meson in_set_takeD)
  ultimately show ?thesis using True by (simp add: cleanup_def)
qed

lemma processEvent_seen: "eventKey e \<in> set (eventHandlers h) \<Longrightarrow> processEvent ea e h = h"
  by (simp add: processEvent_def)

lemma processEvent_records_key: "eventKey e \<in> set (eventHandlers (processEvent ea e h))"
  by (cases "eventKey e \<in> set (eventHandlers h)") (simp_all add: processEvent_def key_kept)

text \<open>
  Claim C1. Feeding the same event twice gives the same hook as feeding it once, whatever
  the hook was before: after the first delivery the key of the event is in the memory (the
  clean-up only deletes the oldest keys), so the second delivery returns at once. More
  generally a delivery whose key is in the memory changes nothing: not the rooms, the
  participants, the current room or the time of the last update.
\<close>

theorem duplicate_event_dropped:
  "processEvent ea e (processEvent ea e h) = processEvent ea e h \<and>
   (eventKey e \<in> set (eventHandlers h) \<longrightarrow>
      processEvent ea e h = h \<and>
      rooms (state (processEvent ea e h)) = rooms (state h) \<and>
      participants (state (processEvent ea e h)) = participants (state h) \<and>
      currentRoom (state (processEvent ea e h)) = currentRoom (state h) \<and>
      lastUpdate (state (processEvent ea e h)) = lastUpdate (state h))"
  using processEvent_records_key [of e ea h]
  by (simp add: processEvent_seen)

lemma hookWithRoom_keys: "eventHandlers hookWithRoom = [''room_created_r1_t1'']"
  by (simp add: hookWithRoom_def processEvent_def initialHook_def eventKey_def
      roomCreatedEvent_def cleanup_def)

lemma hookWithRoom_rooms: "rooms (state hookWithRoom) ''r1'' = Some focusRoom"
  by (simp add: hookWithRoom_def processEvent_def initialHook_def eventKey_def
      roomCreatedEvent_def applyEvent_def initialState_def focusRoom_def)

theorem duplicate_event_dropped_witness:
  "eventKey roomCreatedEvent \<in> set (eventHandlers hookWithRoom) \<and>
   processEvent True roomCreatedEvent hookWithRoom = hookWithRoom \<and>
   rooms (state (processEvent True roomCreatedEvent hookWithRoom)) = rooms (state hookWithRoom)"
proof -
  have seen: "eventKey roomCreatedEvent \<in> set (eventHandlers hookWithRoom)"
    by (simp add: hookWithRoom_keys eventKey_def roomCreatedEvent_def)
  from duplicate_event_dropped [of True roomCreatedEvent hookWithRoom] seen
  show ?thesis by blast
qed

text \<open>
  Claim C2. A \<open>participant_left\<close> event that is seen for the first time and carries a
  room identifier and a participant identifier (both non-empty, as the test of the source
  asks), folded into a projection that has the room with occupancy \<open>n\<close>, leaves the
  room with occupancy \<open>max 0 (n - 1)\<close> and a roster without the participant, and
  removes the participant from the participants map.
\<close>

theorem participant_left_folds:
  assumes "eventKey e \<notin> set (eventHandlers h)"
    and "e_type e = participant_left"
    and "e_roomId e = Some rid" and "rid \<noteq> []"
    and "e_participantId e = Some pid" and "pid \<noteq> []"
    and "rooms (state h) rid = Some room"
  shows "\<exists>room'. rooms (state (processEvent ea e h)) rid = Some room' \<and>
           r_currentParticipants room' = max 0 (r_currentParticipants room - 1) \<and>
           r_participants room' = filter (\<lambda>p. re_id p \<noteq> pid) (r_participants room) \<and>
           pid \<notin> re_id ` set (r_participants room') \<and>
           participants (state (processEvent ea e h)) pid = None"
  using assms by (auto simp: processEvent_def applyEvent_def)

theorem participant_left_folds_witness:
  "\<exists>room'. rooms (state (processEvent True aliceLeftEvent hookWithRoom)) ''r1'' = Some room' \<and>
           r_currentParticipants room' = max 0 (r_currentParticipants focusRoom - 1) \<and>
           r_participants room' = filter (\<lambda>p. re_id p \<noteq> ''u1'') (r_participants focusRoom) \<and>
           ''u1'' \<notin> re_id ` set (r_participants room') \<and>
           participants (state (processEvent True aliceLeftEvent hookWithRoom)) ''u1'' = None"
proof (rule participant_left_folds)
  show "eventKey aliceLeftEvent \<notin> set (eventHandlers hookWithRoom)"
    by (simp add: hookWithRoom_keys eventKey_def aliceLeftEvent_def)
  show "rooms (state hookWithRoom) ''r1'' = Some focusRoom" by (rule hookWithRoom_rooms)
qed (simp_all add: aliceLeftEvent_def)

subsection \<open>The bound on the memory\<close>

lemma filter_take_drop:
  "distinct ks \<Longrightarrow> filter (\<lambda>k. k \<notin> set (take n ks)) ks = drop n ks"
proof -
  assume d: "distinct ks"
  have split: "ks = take n ks @ drop n ks" by simp
  from d have disj: "set (take n ks) \<inter> set (drop n ks) = {}"
    by (metis append_take_drop_id distinct_append)
  have a: "filter (\<lambda>k. k \<notin> set (take n ks)) (take n ks) = []" by simp
  have b: "filter (\<lambda>k. k \<notin> set (take n ks)) (drop n ks) = drop n ks"
    using disj by (auto simp: filter_id_conv)
  have "filter (\<lambda>k. k \<notin> set (take n ks)) (take n ks @ drop n ks) = drop n ks"
    unfolding filter_append a b by simp
  then show ?thesis by simp
qed

lemma cleanup_distinct_eq:
  "distinct ks \<Longrightarrow> cleanup ks = (if length ks > 1000 then drop 500 ks else ks)"
  by (simp add: cleanup_def filter_take_drop)

lemma processEvent_dedupInv: "dedupInv h \<Longrightarrow> dedupInv (processEvent ea e h)"
  by (auto simp: dedupInv_def processEvent_def cleanup_distinct_eq dest: in_set_dropD)

lemma processEvents_snoc:
  "processEvents ea (es @ [e]) h = processEvent ea e (processEvents ea es h)"
  by (simp add: processEvents_def)

lemma processEvents_dedupInv: "dedupInv h \<Longrightarrow> dedupInv (processEvents ea es h)"
  by (induction es rule: rev_induct) (simp_all add: processEvents_snoc processEvent_dedupInv, simp add: processEvents_def)

lemma fresh_keys_stored:
  "distinct (map eventKey es) \<Longrightarrow> length es \<le> 1000 \<Longrightarrow>
   eventHandlers (processEvents ea es (initialHook now)) = map eventKey es"
proof (induction es rule: rev_induct)
  case Nil
  then show ?case by (simp add: processEvents_def initialHook_def)
next
  case (snoc e es)
  then have ih: "eventHandlers (processEvents ea es (initialHook now)) = map eventKey es"
    and new: "eventKey e \<notin> set (map eventKey es)" and len: "length es < 1000"
    by auto
  show ?case
    using new len by (simp add: processEvents_snoc processEvent_def ih cleanup_def)
qed

lemma overflow_evicts:
  assumes "distinct (map eventKey es)" and "length es = 1001"
  shows "eventHandlers (processEvents ea es (initialHook now)) = drop 500 (map eventKey es)"
proof -
  from assms(2) obtain es' e where es: "es = es' @ [e]" and len: "length es' = 1000"
    by (metis Suc_eq_plus1 length_Suc_conv_rev numeral_plus_one semiring_norm(5) semiring_norm(8) add.commute)
  have d': "distinct (map eventKey es')" and new: "eventKey e \<notin> set (map eventKey es')"
    using assms(1) es by auto
  have st: "eventHandlers (processEvents ea es' (initialHook now)) = map eventKey es'"
    using fresh_keys_stored [OF d'] len by simp
  have dall: "distinct (map eventKey es' @ [eventKey e])" using d' new by simp
  show ?thesis
    using new len dall
    by (simp add: es processEvents_snoc processEvent_def st cleanup_distinct_eq)
qed

text \<open>
  Claim C4. The deduplication memory is bounded. Started empty, it holds at most 1000
  keys after every call of the reducer, whatever the events; the bound (with the keys
  being distinct) is kept by every single call. When a call makes it hold 1001 keys, the
  500 oldest in insertion order are deleted. In particular 1001 events with pairwise
  different keys leave the 501 most recent keys.
\<close>

theorem dedup_memory_bounded:
  "length (eventHandlers (processEvents ea es (initialHook now))) \<le> 1000 \<and>
   (dedupInv h \<longrightarrow> dedupInv (processEvent ea e h)) \<and>
   (distinct (eventHandlers h) \<and> length (eventHandlers h) = 1000 \<and>
      eventKey e \<notin> set (eventHandlers h) \<longrightarrow>
      eventHandlers (processEvent ea e h) = drop 500 (eventHandlers h @ [eventKey e])) \<and>
   (distinct (map eventKey es1) \<and> length es1 = 1001 \<longrightarrow>
      eventHandlers (processEvents ea es1 (initialHook now)) = drop 500 (map eventKey es1) \<and>
      length (eventHandlers (processEvents ea es1 (initialHook now))) = 501)"
proof -
  have "dedupInv (initialHook now)" by (simp add: dedupInv_def initialHook_def)
  then have a: "length (eventHandlers (processEvents ea es (initialHook now))) \<le> 1000"
    using processEvents_dedupInv [of "initialHook now" ea es] by (simp add: dedupInv_def)
  have c: "distinct (eventHandlers h) \<and> length (eventHandlers h) = 1000 \<and>
      eventKey e \<notin> set (eventHandlers h) \<longrightarrow>
      eventHandlers (processEvent ea e h) = drop 500 (eventHandlers h @ [eventKey e])"
    by (simp add: processEvent_def cleanup_distinct_eq)
  have d: "distinct (map eventKey es1) \<and> length es1 = 1001 \<longrightarrow>
      eventHandlers (processEvents ea es1 (initialHook now)) = drop 500 (map eventKey es1) \<and>
      length (eventHandlers (processEvents ea es1 (initialHook now))) = 501"
    by (simp add: overflow_evicts)
  show ?thesis using a c d processEvent_dedupInv by blast
qed

lemma eventKey_tick: "eventKey (tick n) = ''message_received_global_'' @ replicate n (CHR ''i'')"
  by (simp add: eventKey_def tick_def)

lemma burst_distinct: "distinct (map eventKey burst)"
proof -
  have "inj_on (\<lambda>n. eventKey (tick n)) (set [0..<1001])"
  proof (rule inj_onI)
    fix n m
    assume "eventKey (tick n) = eventKey (tick m)"
    then have "replicate n (CHR ''i'') = replicate m (CHR ''i'')"
      by (simp add: eventKey_tick)
    then have "length (replicate n (CHR ''i'')) = length (replicate m (CHR ''i''))" by simp
    then show "n = m" by simp
  qed
  then show ?thesis by (simp add: burst_def distinct_map comp_def)
qed

theorem dedup_memory_bounded_witness:
  "distinct (map eventKey burst) \<and> length burst = 1001 \<and>
   eventHandlers (processEvents True burst (initialHook ''t0'')) = drop 500 (map eventKey burst) \<and>
   length (eventHandlers (processEvents True burst (initialHook ''t0''))) = 501"
proof -
  have len: "length burst = 1001" by (simp add: burst_def)
  from dedup_memory_bounded [of True burst "''t0''" "initialHook ''t0''" roomCreatedEvent burst]
    burst_distinct len
  show ?thesis by blast
qed

subsection \<open>Joined and updated participants\<close>

lemma participant_upsert_folds:
  assumes "eventKey e \<notin> set (eventHandlers h)"
    and "e_type e = participant_joined \<or> e_type e = participant_updated"
    and "d_participant (e_data e) = Some p"
    and "e_roomId e = Some rid" and "rid \<noteq> []"
    and "rooms (state h) rid = Some room"
  shows "participants (state (processEvent ea e h)) (p_id p) = Some p"
    and "rooms (state (processEvent ea e h)) rid =
           Some (room\<lparr>r_participants := objOr (d_participants (e_data e)) (r_participants room),
                      r_currentParticipants :=
                        numOr (d_participantCount (e_data e)) (r_currentParticipants room)\<rparr>)"
  using assms by (auto simp: processEvent_def applyEvent_def)

lemma server_values_win:
  assumes "eventKey e \<notin> set (eventHandlers h)"
    and "e_type e = participant_joined \<or> e_type e = participant_updated"
    and "d_participant (e_data e) = Some p"
    and "e_roomId e = Some rid" and "rid \<noteq> []"
    and "rooms (state h) rid = Some room"
    and "d_participantCount (e_data e) = Some n" and "n \<noteq> 0"
    and "d_participants (e_data e) = Some roster"
  shows "\<exists>room'. rooms (state (processEvent ea e h)) rid = Some room' \<and>
           r_currentParticipants room' = n \<and> r_participants room' = roster"
  using participant_upsert_folds(2) [OF assms(1-6), of ea] assms(7-9) by simp

text \<open>
  Claim C3 says that a supplied participant count always replaces the local occupancy,
  a count of 0 included. The two lemmas above are what the reducer does for a count
  other than 0 and for any roster. At a count of 0 the expression
  \<open>event.data.participantCount || room.currentParticipants\<close> takes the local value:
  the room of two, told by the server that it is empty, gets the empty roster and keeps
  the occupancy 2.
\<close>

theorem zero_count_keeps_local_occupancy:
  "d_participantCount (e_data roomEmptiedEvent) = Some 0 \<and>
   d_participants (e_data roomEmptiedEvent) = Some [] \<and>
   (\<exists>room'. rooms (state (processEvent True roomEmptiedEvent hookWithRoom)) ''r1'' = Some room' \<and>
      r_currentParticipants room' = 2 \<and> r_participants room' = [])"
proof -
  have "eventKey roomEmptiedEvent \<notin> set (eventHandlers hookWithRoom)"
    by (simp add: hookWithRoom_keys eventKey_def roomEmptiedEvent_def)
  from participant_upsert_folds(2) [OF this _ _ _ _ hookWithRoom_rooms, of bobRecord True]
  have "rooms (state (processEvent True roomEmptiedEvent hookWithRoom)) ''r1'' =
          Some (focusRoom\<lparr>r_participants := [], r_currentParticipants := 2\<rparr>)"
    by (simp add: roomEmptiedEvent_def noData_def focusRoom_def)
  then show ?thesis by (simp add: roomEmptiedEvent_def noData_def)
qed

subsection \<open>Replay after \<open>clearCache\<close>\<close>

lemma processEvents_Cons:
  "processEvents ea (e # es) h = processEvents ea es (processEvent ea e h)"
  by (simp add: processEvents_def)

lemma processEvents_Nil: "processEvents ea [] h = h"
  by (simp add: processEvents_def)

lemma assignOne_currentRoom:
  "assignOne (s\<lparr>currentRoom := c\<rparr>) a = (assignOne s a)\<lparr>currentRoom := c\<rparr>"
  by (simp add: assignOne_def split: option.splits)

lemma assignOne_lastUpdate:
  "assignOne (s\<lparr>lastUpdate := l\<rparr>) a = (assignOne s a)\<lparr>lastUpdate := l\<rparr>"
  by (simp add: assignOne_def split: option.splits)

lemma assignAll_currentRoom:
  "foldl assignOne (s\<lparr>currentRoom := c\<rparr>) as = (foldl assignOne s as)\<lparr>currentRoom := c\<rparr>"
  by (induction as arbitrary: s) (simp_all add: assignOne_currentRoom)

lemma assignAll_lastUpdate:
  "foldl assignOne (s\<lparr>lastUpdate := l\<rparr>) as = (foldl assignOne s as)\<lparr>lastUpdate := l\<rparr>"
  by (induction as arbitrary: s) (simp_all add: assignOne_lastUpdate)

lemma assignOne_keeps:
  "currentRoom (assignOne s a) = currentRoom s \<and>
   connectionStatus (assignOne s a) = connectionStatus s \<and>
   messageQueue (assignOne s a) = messageQueue s"
  by (simp add: assignOne_def split: option.splits)

lemma assignAll_keeps:
  "currentRoom (foldl assignOne s as) = currentRoom s \<and>
   connectionStatus (foldl assignOne s as) = connectionStatus s \<and>
   messageQueue (foldl assignOne s as) = messageQueue s"
  by (induction as arbitrary: s) (simp_all add: assignOne_keeps)

lemma foldEvent_lastUpdate:
  "foldEvent t e (s\<lparr>lastUpdate := l\<rparr>) = (foldEvent t e s)\<lparr>lastUpdate := l\<rparr>"
  by (cases t) (simp_all add: assignAll_lastUpdate Let_def split: option.splits)

lemma foldEvent_currentRoom_None:
  "foldEvent t e (s\<lparr>currentRoom := None\<rparr>) = (foldEvent t e s)\<lparr>currentRoom := None\<rparr>"
  by (cases t) (simp_all add: assignAll_currentRoom Let_def split: option.splits)

lemma foldEvent_keeps:
  "connectionStatus (foldEvent t e s) = connectionStatus s \<and>
   messageQueue (foldEvent t e s) = messageQueue s \<and>
   (currentRoom (foldEvent t e s) = currentRoom s \<or> currentRoom (foldEvent t e s) = None)"
  by (cases t) (simp_all add: assignAll_keeps Let_def split: option.splits)

lemma applyEvent_lastUpdate: "applyEvent e (s\<lparr>lastUpdate := l\<rparr>) = applyEvent e s"
  by (simp add: applyEvent_def foldEvent_lastUpdate)

lemma applyEvent_currentRoom_None:
  "applyEvent e (s\<lparr>currentRoom := None\<rparr>) = (applyEvent e s)\<lparr>currentRoom := None\<rparr>"
  by (simp add: applyEvent_def foldEvent_currentRoom_None)

lemma processEvent_keeps:
  "connectionStatus (state (processEvent ea e h)) = connectionStatus (state h) \<and>
   messageQueue (state (processEvent ea e h)) = messageQueue (state h) \<and>
   (currentRoom (state (processEvent ea e h)) = currentRoom (state h) \<or>
    currentRoom (state (processEvent ea e h)) = None)"
  using foldEvent_keeps [of "e_type e" e "state h"]
  by (simp add: processEvent_def applyEvent_def)

lemma processEvents_keeps:
  "connectionStatus (state (processEvents ea es h)) = connectionStatus (state h) \<and>
   messageQueue (state (processEvents ea es h)) = messageQueue (state h) \<and>
   (currentRoom (state (processEvents ea es h)) = currentRoom (state h) \<or>
    currentRoom (state (processEvents ea es h)) = None)"
proof (induction es arbitrary: h)
  case Nil
  then show ?case by (simp add: processEvents_Nil)
next
  case (Cons e es)
  show ?case
    using Cons [of "processEvent ea e h"] processEvent_keeps [of ea e h]
    by (auto simp: processEvents_Cons)
qed

text \<open>Two hooks with the same state and the same memory stay so.\<close>

lemma processEvent_same:
  "state g = state h \<Longrightarrow> eventHandlers g = eventHandlers h \<Longrightarrow>
   state (processEvent ea e g) = state (processEvent ea e h) \<and>
   eventHandlers (processEvent ea e g) = eventHandlers (processEvent ea e h)"
  by (simp add: processEvent_def)

lemma processEvents_same:
  "state g = state h \<Longrightarrow> eventHandlers g = eventHandlers h \<Longrightarrow>
   state (processEvents ea es g) = state (processEvents ea es h) \<and>
   eventHandlers (processEvents ea es g) = eventHandlers (processEvents ea es h)"
proof (induction es arbitrary: g h)
  case Nil
  then show ?case by (simp add: processEvents_Nil)
next
  case (Cons e es)
  from processEvent_same [OF Cons.prems, of ea e]
  have "state (processEvent ea e g) = state (processEvent ea e h)"
    and "eventHandlers (processEvent ea e g) = eventHandlers (processEvent ea e h)"
    by simp_all
  from Cons.IH [OF this] show ?case by (simp add: processEvents_Cons)
qed

lemma processEvent_unset:
  "state g = (state h)\<lparr>currentRoom := None\<rparr> \<Longrightarrow> eventHandlers g = eventHandlers h \<Longrightarrow>
   state (processEvent ea e g) = (state (processEvent ea e h))\<lparr>currentRoom := None\<rparr> \<and>
   eventHandlers (processEvent ea e g) = eventHandlers (processEvent ea e h)"
  by (simp add: processEvent_def applyEvent_currentRoom_None)

lemma processEvents_unset:
  "state g = (state h)\<lparr>currentRoom := None\<rparr> \<Longrightarrow> eventHandlers g = eventHandlers h \<Longrightarrow>
   state (processEvents ea es g) = (state (processEvents ea es h))\<lparr>currentRoom := None\<rparr> \<and>
   eventHandlers (processEvents ea es g) = eventHandlers (processEvents ea es h)"
proof (induction es arbitrary: g h)
  case Nil
  then show ?case by (simp add: processEvents_Nil)
next
  case (Cons e es)
  from processEvent_unset [OF Cons.prems, of ea e]
  have "state (processEvent ea e g) = (state (processEvent ea e h))\<lparr>currentRoom := None\<rparr>"
    and "eventHandlers (processEvent ea e g) = eventHandlers (processEvent ea e h)"
    by simp_all
  from Cons.IH [OF this] show ?case by (simp add: processEvents_Cons)
qed

lemma clearCache_fresh:
  assumes "freshProjection h0"
  shows "state (clearCache (processEvents ea es h0)) =
           (state h0)\<lparr>currentRoom := currentRoom (state (processEvents ea es h0)),
                      lastUpdate := lastUpdate (state (processEvents ea es h0))\<rparr>"
  using assms processEvents_keeps [of ea es h0]
  by (intro RealtimeBreakoutState.equality) (simp_all add: clearCache_def freshProjection_def)

text \<open>What \<open>clearCache\<close> resets and what it keeps.\<close>

lemma clearCache_resets:
  "rooms (state (clearCache h)) = Map.empty \<and> participants (state (clearCache h)) = Map.empty \<and>
   messageQueue (state (clearCache h)) = [] \<and> eventBuffer (clearCache h) = [] \<and>
   eventHandlers (clearCache h) = []"
  by (simp add: clearCache_def)

lemma clearCache_keeps:
  "currentRoom (state (clearCache h)) = currentRoom (state h) \<and>
   lastUpdate (state (clearCache h)) = lastUpdate (state h) \<and>
   connectionStatus (state (clearCache h)) = connectionStatus (state h) \<and>
   metrics (clearCache h) = metrics h"
  by (simp add: clearCache_def)

lemma replay_restores:
  assumes fresh: "freshProjection h0"
  shows "state (processEvents ea es (clearCache (processEvents ea es h0))) =
           state (processEvents ea es h0) \<and>
         eventHandlers (processEvents ea es (clearCache (processEvents ea es h0))) =
           eventHandlers (processEvents ea es h0)"
proof (cases es)
  case Nil
  have "state (clearCache h0) = state h0"
    using fresh by (intro RealtimeBreakoutState.equality) (simp_all add: clearCache_def freshProjection_def)
  then show ?thesis using fresh by (simp add: Nil processEvents_Nil) (simp add: clearCache_def freshProjection_def)
next
  case (Cons e es')
  define hn where "hn = processEvents ea es h0"
  define g0 where "g0 = clearCache hn"
  define h1 where "h1 = processEvent ea e h0"
  define g1 where "g1 = processEvent ea e g0"
  have hn: "hn = processEvents ea es' h1" by (simp add: hn_def h1_def Cons processEvents_Cons)
  have g0s: "state g0 = (state h0)\<lparr>currentRoom := currentRoom (state hn), lastUpdate := lastUpdate (state hn)\<rparr>"
    unfolding g0_def hn_def by (rule clearCache_fresh [OF fresh])
  have g0k: "eventHandlers g0 = []" by (simp add: g0_def clearCache_def)
  have h0k: "eventHandlers h0 = []" using fresh by (simp add: freshProjection_def)
  have keys1: "eventHandlers g1 = eventHandlers h1"
    by (simp add: g1_def h1_def processEvent_def g0k h0k)
  have g1s: "state g1 = applyEvent e ((state h0)\<lparr>currentRoom := currentRoom (state hn)\<rparr>)"
    using applyEvent_lastUpdate [where e = e and s = "(state h0)\<lparr>currentRoom := currentRoom (state hn)\<rparr>" and l = "lastUpdate (state hn)"]
    by (simp add: g1_def processEvent_def g0k g0s)
  have h1s: "state h1 = applyEvent e (state h0)"
    by (simp add: h1_def processEvent_def h0k)
  from processEvents_keeps [of ea es h0]
  consider (same) "currentRoom (state hn) = currentRoom (state h0)"
    | (unset) "currentRoom (state hn) = None"
    by (auto simp: hn_def)
  then have "state (processEvents ea es' g1) = state hn \<and>
             eventHandlers (processEvents ea es' g1) = eventHandlers hn"
  proof cases
    case same
    then have "state g1 = state h1" by (simp add: g1s h1s)
    from processEvents_same [OF this keys1, of ea es'] show ?thesis by (simp add: hn)
  next
    case unset
    then have "state g1 = (state h1)\<lparr>currentRoom := None\<rparr>"
      by (simp add: g1s h1s applyEvent_currentRoom_None)
    from processEvents_unset [OF this keys1, of ea es']
    have "state (processEvents ea es' g1) = (state hn)\<lparr>currentRoom := None\<rparr>"
      and k: "eventHandlers (processEvents ea es' g1) = eventHandlers hn"
      by (simp_all add: hn)
    moreover have "(state hn)\<lparr>currentRoom := None\<rparr> = state hn" using unset by simp
    ultimately show ?thesis by simp
  qed
  then show ?thesis
    by (simp add: hn_def g0_def g1_def Cons processEvents_Cons)
qed

text \<open>
  Claim C9 says that \<open>clearCache\<close> clears the projection entirely. It does not: the
  current room set by \<open>joinRoom\<close> and the connection status are still there after
  it, and so is the time of the last update.
\<close>

theorem clearCache_keeps_pointer_and_time:
  "currentRoom (state joinedHook) = Some ''r9'' \<and>
   currentRoom (state (clearCache joinedHook)) = Some ''r9'' \<and>
   connectionStatus (state (clearCache joinedHook)) = connected \<and>
   lastUpdate (state hookWithRoom) = ''t1'' \<and>
   lastUpdate (state (clearCache hookWithRoom)) = ''t1'' \<and>
   rooms (state (clearCache hookWithRoom)) = Map.empty"
  by (simp add: joinedHook_def connectedHook_def setupEventListeners_def emit_def
      clearCache_def hookWithRoom_def processEvent_def applyEvent_def initialHook_def
      initialState_def roomCreatedEvent_def eventKey_def)

text \<open>
  Claim C9, amended in what \<open>clearCache\<close> clears. \<open>clearCache\<close> empties the rooms
  map, the participants map, the message queue and the deduplication memory, and keeps
  the current room, the time of the last update and the connection status. Run the
  reducer over a sequence of events from a hook that has folded nothing yet, call
  \<open>clearCache\<close>, and replay the same sequence: the state (rooms, participants,
  current room, last update, connection status, queue) and the memory are those of the
  first run. The metrics keep counting and are not part of the statement.
\<close>

theorem replay_after_clearCache:
  assumes fresh: "freshProjection h0"
  shows "rooms (state (clearCache h)) = Map.empty \<and>
         participants (state (clearCache h)) = Map.empty \<and>
         messageQueue (state (clearCache h)) = [] \<and>
         eventHandlers (clearCache h) = [] \<and>
         currentRoom (state (clearCache h)) = currentRoom (state h) \<and>
         lastUpdate (state (clearCache h)) = lastUpdate (state h) \<and>
         connectionStatus (state (clearCache h)) = connectionStatus (state h) \<and>
         state (processEvents ea es (clearCache (processEvents ea es h0))) =
           state (processEvents ea es h0) \<and>
         eventHandlers (processEvents ea es (clearCache (processEvents ea es h0))) =
           eventHandlers (processEvents ea es h0)"
  using replay_restores [OF fresh, of ea es] clearCache_resets [of h] clearCache_keeps [of h]
  by simp

theorem replay_after_clearCache_witness:
  "freshProjection (initialHook ''t0'') \<and>
   rooms (state (clearCache hookWithRoom)) = Map.empty \<and>
   eventHandlers (clearCache hookWithRoom) = [] \<and>
   lastUpdate (state (clearCache hookWithRoom)) = lastUpdate (state hookWithRoom) \<and>
   state (processEvents True [roomCreatedEvent, aliceLeftEvent]
            (clearCache (processEvents True [roomCreatedEvent, aliceLeftEvent] (initialHook ''t0'')))) =
     state (processEvents True [roomCreatedEvent, aliceLeftEvent] (initialHook ''t0'')) \<and>
   eventHandlers (processEvents True [roomCreatedEvent, aliceLeftEvent]
            (clearCache (processEvents True [roomCreatedEvent, aliceLeftEvent] (initialHook ''t0'')))) =
     eventHandlers (processEvents True [roomCreatedEvent, aliceLeftEvent] (initialHook ''t0''))"
proof -
  have fresh: "freshProjection (initialHook ''t0'')"
    by (simp add: freshProjection_def initialHook_def initialState_def)
  from replay_after_clearCache [OF fresh, of hookWithRoom True "[roomCreatedEvent, aliceLeftEvent]"]
    fresh
  show ?thesis by blast
qed

section \<open>The operations of the hook\<close>

text \<open>
  The guard of a memoised operation tests the status its closure holds.
\<close>

lemma guarded_operations_raise:
  assumes "connectionStatus (cb_state cb) \<noteq> connected"
  shows "createRoom cb h = Inl SocketNotConnected"
    and "joinRoom cb rid h = Inl SocketNotConnected"
    and "leaveRoom cb rid h = Inl SocketNotConnected"
    and "sendMessage cb rid h = Inl SocketNotConnected"
  using assms by (simp_all add: createRoom_def joinRoom_def leaveRoom_def sendMessage_def)

text \<open>
  While the options stay the same, every render keeps the closure of the first one, which
  holds the initial state: the guarded operations reject although the hook is connected.
\<close>

lemma useCallback_unchanged:
  "useCallback (Some (useCallback None sid ea s0)) sid ea s = useCallback None sid ea s0"
  by (simp add: useCallback_def)

lemma first_closure_rejects:
  "joinRoom (useCallback None sid ea (state (initialHook now))) rid
     (setupEventListeners (initialHook now)) = Inl SocketNotConnected"
  by (simp add: joinRoom_def useCallback_def initialHook_def initialState_def)

text \<open>
  A closure created while the hook was connected keeps emitting after \<open>disconnect\<close>.
\<close>

lemma later_closure_emits_after_disconnect:
  "connectionStatus (state (disconnect ''s1'' connectedHook)) = disconnected \<and>
   sendMessage laterClosure ''r1'' (disconnect ''s1'' connectedHook) =
     Inr (emit ''send_breakout_message'' ''s1'' (Some ''r1'') (disconnect ''s1'' connectedHook))"
  by (simp add: sendMessage_def laterClosure_def firstClosure_def useCallback_def
      connectedHook_def setupEventListeners_def disconnect_def countSent_def emit_def)

text \<open>
  Claim C8 asks every operation to raise the error while the hook is not connected. The
  four memoised operations test the status their closure holds, as the lemmas above say.
  The five operations written inline in the returned object have no guard at all: on the
  freshly created hook, whose status is \<open>disconnected\<close>, each of them emits and returns
  normally.
\<close>

theorem unguarded_operations_emit_when_disconnected:
  "connectionStatus (state (initialHook ''t0'')) = disconnected \<and>
   (\<exists>h'. updateRoom ''s1'' ''r1'' (initialHook ''t0'') = Inr h' \<and>
      emitted h' = [Emit ''update_breakout_room'' ''s1'' (Some ''r1'')]) \<and>
   (\<exists>h'. deleteRoom ''s1'' ''r1'' (initialHook ''t0'') = Inr h' \<and>
      emitted h' = [Emit ''delete_breakout_room'' ''s1'' (Some ''r1'')]) \<and>
   (\<exists>h'. updateParticipant ''s1'' ''r1'' ''u1'' (initialHook ''t0'') = Inr h' \<and>
      emitted h' = [Emit ''update_breakout_participant'' ''s1'' (Some ''r1'')]) \<and>
   (\<exists>h'. moderateParticipant ''s1'' ''r1'' (initialHook ''t0'') = Inr h' \<and>
      emitted h' = [Emit ''moderate_breakout_participant'' ''s1'' (Some ''r1'')]) \<and>
   (\<exists>h'. sendReaction ''s1'' ''r1'' (initialHook ''t0'') = Inr h' \<and>
      emitted h' = [Emit ''send_breakout_reaction'' ''s1'' (Some ''r1'')])"
  by (simp add: initialHook_def initialState_def updateRoom_def deleteRoom_def
      updateParticipant_def moderateParticipant_def sendReaction_def emit_def)

lemma state_countSent: "state (countSent ea h) = state h"
  by (simp add: countSent_def)

lemma joinRoom_result:
  "joinRoom cb rid h = Inr h' \<Longrightarrow>
   state h' = (state h)\<lparr>currentRoom := Some rid\<rparr> \<and> connectionStatus (cb_state cb) = connected"
  by (auto simp: joinRoom_def state_countSent emit_def split: if_splits)

lemma laterClosure_joins: "joinRoom laterClosure ''r9'' connectedHook = Inr joinedHook"
  by (simp add: joinRoom_def laterClosure_def firstClosure_def useCallback_def connectedHook_def
      setupEventListeners_def joinedHook_def countSent_def initialHook_def initialState_def)

text \<open>
  Claim C10. In every state the returned \<open>currentRoom\<close> is the room stored under the
  current-room identifier; it is null when the identifier is unset (null or the empty
  string, which the conditional treats alike) or when no room is stored under it. In
  particular, whenever \<open>joinRoom\<close> goes through (its closure holds the status
  \<open>connected\<close>) for a room that the rooms map does not hold, it sets the identifier
  and leaves the rooms map as it was, and the returned \<open>currentRoom\<close> is null.
\<close>

theorem returned_currentRoom:
  "(currentRoom s = Some rid \<and> rid \<noteq> [] \<longrightarrow> returnedCurrentRoom s = rooms s rid) \<and>
   (currentRoom s = None \<or> currentRoom s = Some [] \<longrightarrow> returnedCurrentRoom s = None) \<and>
   (currentRoom s = Some rid \<and> rooms s rid = None \<longrightarrow> returnedCurrentRoom s = None) \<and>
   (joinRoom cb rid h = Inr h' \<and> rooms (state h) rid = None \<longrightarrow>
      currentRoom (state h') = Some rid \<and> rooms (state h') = rooms (state h) \<and>
      returnedCurrentRoom (state h') = None)"
proof (intro conjI impI)
  assume "currentRoom s = Some rid \<and> rid \<noteq> []"
  then show "returnedCurrentRoom s = rooms s rid" by (simp add: returnedCurrentRoom_def)
next
  assume "currentRoom s = None \<or> currentRoom s = Some []"
  then show "returnedCurrentRoom s = None" by (auto simp: returnedCurrentRoom_def)
next
  assume "currentRoom s = Some rid \<and> rooms s rid = None"
  then show "returnedCurrentRoom s = None" by (simp add: returnedCurrentRoom_def)
next
  assume h: "joinRoom cb rid h = Inr h' \<and> rooms (state h) rid = None"
  then have st: "state h' = (state h)\<lparr>currentRoom := Some rid\<rparr>"
    using joinRoom_result [of cb rid h h'] by simp
  show "currentRoom (state h') = Some rid" by (simp add: st)
  show "rooms (state h') = rooms (state h)" by (simp add: st)
  show "returnedCurrentRoom (state h') = None"
    using h by (simp add: st returnedCurrentRoom_def)
qed

theorem returned_currentRoom_witness:
  "joinRoom laterClosure ''r9'' connectedHook = Inr joinedHook \<and>
   rooms (state connectedHook) ''r9'' = None \<and>
   currentRoom (state joinedHook) = Some ''r9'' \<and>
   rooms (state joinedHook) = rooms (state connectedHook) \<and>
   returnedCurrentRoom (state joinedHook) = None"
proof -
  have absent: "rooms (state connectedHook) ''r9'' = None"
    by (simp add: connectedHook_def setupEventListeners_def initialHook_def initialState_def)
  from returned_currentRoom [where cb = laterClosure and rid = "''r9''" and h = connectedHook
      and h' = joinedHook and s = "state joinedHook"] laterClosure_joins absent
  show ?thesis by blast
qed

section \<open>The breakout service\<close>

subsection \<open>Validation\<close>










subsection \<open>The acknowledgment on the socket\<close>

lemma awaitAck_skip:
  "quietBefore sid name before \<Longrightarrow> awaitAck sid name (before @ rest) = awaitAck sid name rest"
proof (induction before)
  case Nil
  then show ?case by simp
next
  case (Cons x before)
  obtain t ev where x: "x = (t, ev)" by (cases x)
  from Cons.prems have quiet: "quietBefore sid name before" and t: "t < 8000"
    and ns: "\<not> settles sid name ev"
    by (simp_all add: quietBefore_def x)
  show ?case
  proof (cases ev)
    case (RoomCreated s room)
    with t ns Cons.IH [OF quiet] show ?thesis by (auto simp: x)
  next
    case (RoomCreateError msg)
    with ns show ?thesis by simp
  qed
qed

lemma awaitAck_timeout:
  "noAckInTime sid name evs \<Longrightarrow>
   awaitAck sid name evs =
     (Failure ''Timed out waiting for server acknowledgment'',
      [SocketOff ''breakout_room_created'', SocketOff ''breakout_room_create_error''])"
proof (induction sid name evs rule: awaitAck.induct)
  case (1 sessionId name)
  then show ?case by simp
next
  case (2 sessionId name t sid room rest)
  then show ?case by (auto simp: noAckInTime_def split: if_splits)
next
  case (3 sessionId name t msg rest)
  then show ?case by (auto simp: noAckInTime_def split: if_splits)
qed

lemma awaitAck_created:
  assumes "quietBefore sid name before" and "t < 8000" and "r_name room = name"
  shows "awaitAck sid name (before @ (t, RoomCreated (Some sid) (Some room)) # rest) =
           (Success (Some room),
            [ClearTimeout, SocketOff ''breakout_room_created'',
             SocketOff ''breakout_room_create_error''])"
  using assms by (simp add: awaitAck_skip)

lemma awaitAck_error:
  assumes "quietBefore sid name before" and "t < 8000"
  shows "awaitAck sid name (before @ (t, RoomCreateError msg) # rest) =
           (Failure (strOr msg ''Server reported creation error''),
            [ClearTimeout, SocketOff ''breakout_room_created'',
             SocketOff ''breakout_room_create_error''])"
  using assms by (simp add: awaitAck_skip)

lemma createBreakoutRoom_connected:
  assumes "validateConfig cfg = None" and "permissionValid env" and "socketConnected env"
  shows "createBreakoutRoom env sid cfg =
     (case awaitAck sid (c_name cfg) (inbound env) of
        (Success room, tr) \<Rightarrow>
          (Success room,
           [FetchDebugPermissions sid, ValidateSessionPermissions sid, SetTimeout 8000,
            SocketOn ''breakout_room_created'', SocketOn ''breakout_room_create_error'',
            SocketCreateBreakoutRoom sid (c_name cfg)] @ tr)
      | (Failure err, tr) \<Rightarrow>
          (fst (restPath env sid cfg),
           [FetchDebugPermissions sid, ValidateSessionPermissions sid, SetTimeout 8000,
            SocketOn ''breakout_room_created'', SocketOn ''breakout_room_create_error'',
            SocketCreateBreakoutRoom sid (c_name cfg)] @ tr @ snd (restPath env sid cfg)))"
  using assms
  by (simp add: createBreakoutRoom_def Let_def split: prod.splits create_result.splits)

lemma focusConfig_valid: "validateConfig focusConfig = None"
  by (simp add: validateConfig_def focusConfig_def trim_def ascii_def isWhiteSpace_def)

lemma other_name: "r_name otherRoom \<noteq> c_name focusConfig"
  by (simp add: otherRoom_def focusConfig_def ascii_def)

lemma focus_name: "r_name focusRoom = c_name focusConfig"
  by (simp add: focusRoom_def focusConfig_def)

text \<open>
  Claim C6 says that with a connected transport the create request is emitted and a
  matching acknowledgment within 8 seconds makes the operation succeed. Between the
  validation and the socket there is the permission check: when it refuses, nothing is
  emitted and the operation fails at once, although the socket is connected and would
  have acknowledged after 350 ms.
\<close>

theorem permission_refusal_stops_request:
  "validateConfig focusConfig = None \<and> socketConnected deniedEnv \<and>
   inbound deniedEnv = [(120, RoomCreated (Some ''s1'') (Some otherRoom)),
                        (350, RoomCreated (Some ''s1'') (Some focusRoom))] \<and>
   createBreakoutRoom deniedEnv ''s1'' focusConfig =
     (Failure ''Not a host'',
      [FetchDebugPermissions ''s1'', ValidateSessionPermissions ''s1'',
       DebugBreakoutRoomPermissions ''s1''])"
  by (simp add: focusConfig_valid createBreakoutRoom_def deniedEnv_def ackEnv_def
      debugBreakoutRoomPermissions_def)

text \<open>
  Claim C6, amended. After the validation and the permission check have passed, with
  the transport connected: the timer of 8000 ms is set, the two listeners are registered
  and the create request is emitted. If the first event that ends the wait is a
  \<open>breakout_room_created\<close> for the same session and room name, arriving before 8000 ms,
  the operation succeeds with the room the server sent and the REST path is not entered.
  If nothing ends the wait before the timer fires, or if what ends it is an error event,
  the result is the one of the REST path, whose calls follow in the trace.
\<close>

theorem socket_ack_or_rest_fallback:
  assumes "validateConfig cfg = None" and "permissionValid env" and "socketConnected env"
  shows
   "(\<exists>tr. snd (createBreakoutRoom env sid cfg) =
       [FetchDebugPermissions sid, ValidateSessionPermissions sid, SetTimeout 8000,
        SocketOn ''breakout_room_created'', SocketOn ''breakout_room_create_error'',
        SocketCreateBreakoutRoom sid (c_name cfg)] @ tr) \<and>
    (inbound env = before @ (t, RoomCreated (Some sid) (Some room)) # rest \<and>
     quietBefore sid (c_name cfg) before \<and> t < 8000 \<and> r_name room = c_name cfg \<longrightarrow>
       createBreakoutRoom env sid cfg =
         (Success (Some room),
          [FetchDebugPermissions sid, ValidateSessionPermissions sid, SetTimeout 8000,
           SocketOn ''breakout_room_created'', SocketOn ''breakout_room_create_error'',
           SocketCreateBreakoutRoom sid (c_name cfg),
           ClearTimeout, SocketOff ''breakout_room_created'',
           SocketOff ''breakout_room_create_error''])) \<and>
    (noAckInTime sid (c_name cfg) (inbound env) \<longrightarrow>
       createBreakoutRoom env sid cfg =
         (fst (restPath env sid cfg),
          [FetchDebugPermissions sid, ValidateSessionPermissions sid, SetTimeout 8000,
           SocketOn ''breakout_room_created'', SocketOn ''breakout_room_create_error'',
           SocketCreateBreakoutRoom sid (c_name cfg),
           SocketOff ''breakout_room_created'', SocketOff ''breakout_room_create_error'']
          @ snd (restPath env sid cfg))) \<and>
    (inbound env = before @ (t, RoomCreateError msg) # rest \<and>
     quietBefore sid (c_name cfg) before \<and> t < 8000 \<longrightarrow>
       createBreakoutRoom env sid cfg =
         (fst (restPath env sid cfg),
          [FetchDebugPermissions sid, ValidateSessionPermissions sid, SetTimeout 8000,
           SocketOn ''breakout_room_created'', SocketOn ''breakout_room_create_error'',
           SocketCreateBreakoutRoom sid (c_name cfg),
           ClearTimeout, SocketOff ''breakout_room_created'',
           SocketOff ''breakout_room_create_error'']
          @ snd (restPath env sid cfg)))"
proof (intro conjI impI)
  note run = createBreakoutRoom_connected [OF assms, of sid]
  show "\<exists>tr. snd (createBreakoutRoom env sid cfg) =
       [FetchDebugPermissions sid, ValidateSessionPermissions sid, SetTimeout 8000,
        SocketOn ''breakout_room_created'', SocketOn ''breakout_room_create_error'',
        SocketCreateBreakoutRoom sid (c_name cfg)] @ tr"
    by (simp add: run split: prod.splits create_result.splits)
next
  note run = createBreakoutRoom_connected [OF assms, of sid]
  assume "inbound env = before @ (t, RoomCreated (Some sid) (Some room)) # rest \<and>
     quietBefore sid (c_name cfg) before \<and> t < 8000 \<and> r_name room = c_name cfg"
  then show "createBreakoutRoom env sid cfg =
         (Success (Some room),
          [FetchDebugPermissions sid, ValidateSessionPermissions sid, SetTimeout 8000,
           SocketOn ''breakout_room_created'', SocketOn ''breakout_room_create_error'',
           SocketCreateBreakoutRoom sid (c_name cfg),
           ClearTimeout, SocketOff ''breakout_room_created'',
           SocketOff ''breakout_room_create_error''])"
    by (simp add: run awaitAck_created)
next
  note run = createBreakoutRoom_connected [OF assms, of sid]
  assume "noAckInTime sid (c_name cfg) (inbound env)"
  then show "createBreakoutRoom env sid cfg =
         (fst (restPath env sid cfg),
          [FetchDebugPermissions sid, ValidateSessionPermissions sid, SetTimeout 8000,
           SocketOn ''breakout_room_created'', SocketOn ''breakout_room_create_error'',
           SocketCreateBreakoutRoom sid (c_name cfg),
           SocketOff ''breakout_room_created'', SocketOff ''breakout_room_create_error'']
          @ snd (restPath env sid cfg))"
    by (simp add: run awaitAck_timeout)
next
  note run = createBreakoutRoom_connected [OF assms, of sid]
  assume "inbound env = before @ (t, RoomCreateError msg) # rest \<and>
     quietBefore sid (c_name cfg) before \<and> t < 8000"
  then show "createBreakoutRoom env sid cfg =
         (fst (restPath env sid cfg),
          [FetchDebugPermissions sid, ValidateSessionPermissions sid, SetTimeout 8000,
           SocketOn ''breakout_room_created'', SocketOn ''breakout_room_create_error'',
           SocketCreateBreakoutRoom sid (c_name cfg),
           ClearTimeout, SocketOff ''breakout_room_created'',
           SocketOff ''breakout_room_create_error'']
          @ snd (restPath env sid cfg))"
    by (simp add: run awaitAck_error)
qed


theorem socket_ack_or_rest_fallback_witness:
  "validateConfig focusConfig = None \<and> permissionValid ackEnv \<and> socketConnected ackEnv \<and>
   createBreakoutRoom ackEnv ''s1'' focusConfig =
     (Success (Some focusRoom),
      [FetchDebugPermissions ''s1'', ValidateSessionPermissions ''s1'', SetTimeout 8000,
       SocketOn ''breakout_room_created'', SocketOn ''breakout_room_create_error'',
       SocketCreateBreakoutRoom ''s1'' (c_name focusConfig),
       ClearTimeout, SocketOff ''breakout_room_created'',
       SocketOff ''breakout_room_create_error'']) \<and>
   permissionValid lateEnv \<and> socketConnected lateEnv \<and>
   noAckInTime ''s1'' (c_name focusConfig) (inbound lateEnv) \<and>
   createBreakoutRoom lateEnv ''s1'' focusConfig =
     (fst (restPath lateEnv ''s1'' focusConfig),
      [FetchDebugPermissions ''s1'', ValidateSessionPermissions ''s1'', SetTimeout 8000,
       SocketOn ''breakout_room_created'', SocketOn ''breakout_room_create_error'',
       SocketCreateBreakoutRoom ''s1'' (c_name focusConfig),
       SocketOff ''breakout_room_created'', SocketOff ''breakout_room_create_error'']
      @ snd (restPath lateEnv ''s1'' focusConfig))"
proof -
  have p: "permissionValid ackEnv" and c: "socketConnected ackEnv"
    by (simp_all add: ackEnv_def)
  have p': "permissionValid lateEnv" and c': "socketConnected lateEnv"
    by (simp_all add: lateEnv_def ackEnv_def)
  have arrives: "inbound ackEnv =
      [(120, RoomCreated (Some ''s1'') (Some otherRoom))]
      @ (350, RoomCreated (Some ''s1'') (Some focusRoom)) # []"
    by (simp add: ackEnv_def)
  have quiet: "quietBefore ''s1'' (c_name focusConfig) [(120, RoomCreated (Some ''s1'') (Some otherRoom))]"
    by (simp add: quietBefore_def other_name)
  have intime: "(350::nat) < 8000" by simp
  have late: "noAckInTime ''s1'' (c_name focusConfig) (inbound lateEnv)"
    by (simp add: noAckInTime_def lateEnv_def other_name)
  from socket_ack_or_rest_fallback [OF focusConfig_valid p c, of "''s1''"
      "[(120, RoomCreated (Some ''s1'') (Some otherRoom))]" 350 focusRoom "[]"]
    arrives quiet intime focus_name
  have first: "createBreakoutRoom ackEnv ''s1'' focusConfig =
     (Success (Some focusRoom),
      [FetchDebugPermissions ''s1'', ValidateSessionPermissions ''s1'', SetTimeout 8000,
       SocketOn ''breakout_room_created'', SocketOn ''breakout_room_create_error'',
       SocketCreateBreakoutRoom ''s1'' (c_name focusConfig),
       ClearTimeout, SocketOff ''breakout_room_created'',
       SocketOff ''breakout_room_create_error''])"
    by blast
  from socket_ack_or_rest_fallback [OF focusConfig_valid p' c', of "''s1''"] late
  have second: "createBreakoutRoom lateEnv ''s1'' focusConfig =
     (fst (restPath lateEnv ''s1'' focusConfig),
      [FetchDebugPermissions ''s1'', ValidateSessionPermissions ''s1'', SetTimeout 8000,
       SocketOn ''breakout_room_created'', SocketOn ''breakout_room_create_error'',
       SocketCreateBreakoutRoom ''s1'' (c_name focusConfig),
       SocketOff ''breakout_room_created'', SocketOff ''breakout_room_create_error'']
      @ snd (restPath lateEnv ''s1'' focusConfig))"
    by blast
  from focusConfig_valid p c p' c' late first second show ?thesis by blast
qed

subsection \<open>The REST path\<close>

lemma pollLoop_found:
  assumes "a + i < n"
    and "findByName name (answers (a + i)) = Some m"
    and "\<forall>j<i. findByName name (answers (a + j)) = None"
  shows "pollLoop answers sid name n ms a =
           (Some m, concat (replicate i [GetBreakoutRooms sid, Sleep ms]) @ [GetBreakoutRooms sid])"
  using assms
proof (induction i arbitrary: a)
  case 0
  then show ?case by (subst pollLoop.simps) simp
next
  case (Suc i)
  from Suc.prems(3) have here: "findByName name (answers a) = None" by force
  have later: "\<forall>j<i. findByName name (answers (Suc a + j)) = None"
    using Suc.prems(3) by (metis Suc_less_eq add_Suc_shift)
  have "pollLoop answers sid name n ms (Suc a) =
          (Some m, concat (replicate i [GetBreakoutRooms sid, Sleep ms]) @ [GetBreakoutRooms sid])"
    using Suc.IH [of "Suc a"] Suc.prems(1,2) later by simp
  moreover have "a < n" using Suc.prems(1) by simp
  ultimately show ?case using here by (subst pollLoop.simps) simp
qed

lemma pollLoop_none:
  assumes "\<forall>j. a \<le> j \<and> j < n \<longrightarrow> findByName name (answers j) = None"
  shows "pollLoop answers sid name n ms a =
           (None, concat (replicate (n - a) [GetBreakoutRooms sid, Sleep ms]))"
  using assms
proof (induction "n - a" arbitrary: a)
  case 0
  then show ?case by (subst pollLoop.simps) simp
next
  case (Suc k)
  then have lt: "a < n" and k: "k = n - Suc a" by simp_all
  have here: "findByName name (answers a) = None" using Suc.prems lt by simp
  have "pollLoop answers sid name n ms (Suc a) =
          (None, concat (replicate (n - Suc a) [GetBreakoutRooms sid, Sleep ms]))"
    using Suc.hyps(1) [OF k] Suc.prems by simp
  moreover have "n - a = Suc (n - Suc a)" using lt by simp
  ultimately show ?case using here lt by (subst pollLoop.simps) simp
qed

lemma poll_found:
  assumes "i < n"
    and "findByName name (listAnswers env i) = Some m"
    and "\<forall>j<i. findByName name (listAnswers env j) = None"
  shows "pollForRoomByName env sid name n ms =
           (Some m, concat (replicate i [GetBreakoutRooms sid, Sleep ms]) @ [GetBreakoutRooms sid])"
  using pollLoop_found [of 0 i n name "listAnswers env" m sid ms] assms
  by (simp add: pollForRoomByName_def)

lemma poll_none:
  assumes "\<forall>j<n. findByName name (listAnswers env j) = None"
  shows "pollForRoomByName env sid name n ms =
           (None, concat (replicate n [GetBreakoutRooms sid, Sleep ms]))"
  using pollLoop_none [of 0 n name "listAnswers env" sid ms] assms
  by (simp add: pollForRoomByName_def)

lemma createRoomViaAPI_legacy:
  assumes "truthy (authToken env)" and "tokenValid env"
    and "\<not> (b_success (backendRes env) \<and> b_room (backendRes env) \<noteq> None)"
    and "apiRes env = ApiFailure (Some msg)" and "matches404 msg"
  shows "createRoomViaAPI env sid cfg =
           (fst (legacyFallback env sid cfg),
            BackendCreateBreakoutRoom sid (c_name cfg) # ApiCreateBreakoutRoom sid (c_name cfg) #
            snd (legacyFallback env sid cfg))"
  using assms by (simp add: createRoomViaAPI_def split: prod.splits)

lemma legacyFallback_first:
  "\<exists>tr. snd (legacyFallback env sid cfg) = FetchLegacyCreate sid (c_name cfg) # tr"
  by (simp add: legacyFallback_def split: legacy_response.splits prod.splits option.splits)

text \<open>
  Claim C7 says that the poll follows whenever the legacy attempt fails as well. When the
  legacy \<open>fetch\<close> is rejected, without an HTTP answer, the rejection is thrown on at
  once: no list query is made, although the second one would have shown the room.
\<close>

theorem rejected_legacy_request_skips_poll:
  "truthy (authToken rejectedEnv) \<and> tokenValid rejectedEnv \<and>
   apiRes rejectedEnv = ApiFailure (Some ''HTTP 404: Not Found'') \<and>
   matches404 ''HTTP 404: Not Found'' \<and>
   legacyResp rejectedEnv = LegacyRejected ''Failed to fetch'' \<and>
   findByName (c_name focusConfig) (listAnswers rejectedEnv 1) = Some focusRoom \<and>
   createRoomViaAPI rejectedEnv ''s1'' focusConfig =
     (Inl ''Failed to fetch'',
      [BackendCreateBreakoutRoom ''s1'' (c_name focusConfig),
       ApiCreateBreakoutRoom ''s1'' (c_name focusConfig),
       FetchLegacyCreate ''s1'' (c_name focusConfig)])"
proof -
  have found: "findByName (c_name focusConfig) (listAnswers rejectedEnv 1) = Some focusRoom"
    using other_name focus_name by (simp add: rejectedEnv_def ackEnv_def)
  have m: "matches404 ''HTTP 404: Not Found''" by (simp add: matches404_def)
  have run: "createRoomViaAPI rejectedEnv ''s1'' focusConfig =
     (Inl ''Failed to fetch'',
      [BackendCreateBreakoutRoom ''s1'' (c_name focusConfig),
       ApiCreateBreakoutRoom ''s1'' (c_name focusConfig),
       FetchLegacyCreate ''s1'' (c_name focusConfig)])"
    using m by (simp add: createRoomViaAPI_def legacyFallback_def rejectedEnv_def ackEnv_def)
  from found m run show ?thesis by (simp add: rejectedEnv_def ackEnv_def)
qed

text \<open>
  Claim C7, amended: the poll follows a legacy attempt that fails with an HTTP answer.
  On the REST path, with a valid token, when the attempt on the modern endpoint fails
  with an error that reads 404 (the test \<open>/404|Not Found/i\<close>), the legacy endpoint is
  tried before any error is returned. If the legacy endpoint answers with a status that
  is not ok, the list of rooms is queried at most 6 times, with a pause of 1000 ms after
  every query that does not show a room of the same name; the first query that shows
  one ends the polling and the room is returned as a success; after 6 queries without it
  the error of the legacy answer is thrown.
\<close>

theorem legacy_retry_then_poll:
  assumes "truthy (authToken env)" and "tokenValid env"
    and "\<not> (b_success (backendRes env) \<and> b_room (backendRes env) \<noteq> None)"
    and "apiRes env = ApiFailure (Some msg)" and "matches404 msg"
  shows
   "(\<exists>res tr. createRoomViaAPI env sid cfg =
       (res, BackendCreateBreakoutRoom sid (c_name cfg) # ApiCreateBreakoutRoom sid (c_name cfg) #
             FetchLegacyCreate sid (c_name cfg) # tr)) \<and>
    (legacyResp env = LegacyResponse True status statusText room \<longrightarrow>
       createRoomViaAPI env sid cfg =
         (Inr (Success room),
          [BackendCreateBreakoutRoom sid (c_name cfg), ApiCreateBreakoutRoom sid (c_name cfg),
           FetchLegacyCreate sid (c_name cfg)])) \<and>
    (legacyResp env = LegacyResponse False status statusText room \<and> i < 6 \<and>
     findByName (c_name cfg) (listAnswers env i) = Some m \<and>
     (\<forall>j<i. findByName (c_name cfg) (listAnswers env j) = None) \<longrightarrow>
       createRoomViaAPI env sid cfg =
         (Inr (Success (Some m)),
          [BackendCreateBreakoutRoom sid (c_name cfg), ApiCreateBreakoutRoom sid (c_name cfg),
           FetchLegacyCreate sid (c_name cfg)]
          @ concat (replicate i [GetBreakoutRooms sid, Sleep 1000]) @ [GetBreakoutRooms sid])) \<and>
    (legacyResp env = LegacyResponse False status statusText room \<and>
     (\<forall>j<6. findByName (c_name cfg) (listAnswers env j) = None) \<longrightarrow>
       createRoomViaAPI env sid cfg =
         (Inl (''HTTP '' @ showNat status @ '': '' @ statusText),
          [BackendCreateBreakoutRoom sid (c_name cfg), ApiCreateBreakoutRoom sid (c_name cfg),
           FetchLegacyCreate sid (c_name cfg)]
          @ concat (replicate 6 [GetBreakoutRooms sid, Sleep 1000])))"
proof (intro conjI impI)
  note via = createRoomViaAPI_legacy [OF assms, of sid cfg]
  from legacyFallback_first [of env sid cfg]
  show "\<exists>res tr. createRoomViaAPI env sid cfg =
       (res, BackendCreateBreakoutRoom sid (c_name cfg) # ApiCreateBreakoutRoom sid (c_name cfg) #
             FetchLegacyCreate sid (c_name cfg) # tr)"
    by (auto simp: via)
next
  note via = createRoomViaAPI_legacy [OF assms, of sid cfg]
  assume "legacyResp env = LegacyResponse True status statusText room"
  then show "createRoomViaAPI env sid cfg =
         (Inr (Success room),
          [BackendCreateBreakoutRoom sid (c_name cfg), ApiCreateBreakoutRoom sid (c_name cfg),
           FetchLegacyCreate sid (c_name cfg)])"
    by (simp add: via legacyFallback_def)
next
  note via = createRoomViaAPI_legacy [OF assms, of sid cfg]
  assume h: "legacyResp env = LegacyResponse False status statusText room \<and> i < 6 \<and>
     findByName (c_name cfg) (listAnswers env i) = Some m \<and>
     (\<forall>j<i. findByName (c_name cfg) (listAnswers env j) = None)"
  then have "pollForRoomByName env sid (c_name cfg) 6 1000 =
      (Some m, concat (replicate i [GetBreakoutRooms sid, Sleep 1000]) @ [GetBreakoutRooms sid])"
    by (intro poll_found) simp_all
  with h show "createRoomViaAPI env sid cfg =
         (Inr (Success (Some m)),
          [BackendCreateBreakoutRoom sid (c_name cfg), ApiCreateBreakoutRoom sid (c_name cfg),
           FetchLegacyCreate sid (c_name cfg)]
          @ concat (replicate i [GetBreakoutRooms sid, Sleep 1000]) @ [GetBreakoutRooms sid])"
    by (simp add: via legacyFallback_def)
next
  note via = createRoomViaAPI_legacy [OF assms, of sid cfg]
  assume h: "legacyResp env = LegacyResponse False status statusText room \<and>
     (\<forall>j<6. findByName (c_name cfg) (listAnswers env j) = None)"
  then have "pollForRoomByName env sid (c_name cfg) 6 1000 =
      (None, concat (replicate 6 [GetBreakoutRooms sid, Sleep 1000]))"
    by (intro poll_none) simp
  with h show "createRoomViaAPI env sid cfg =
         (Inl (''HTTP '' @ showNat status @ '': '' @ statusText),
          [BackendCreateBreakoutRoom sid (c_name cfg), ApiCreateBreakoutRoom sid (c_name cfg),
           FetchLegacyCreate sid (c_name cfg)]
          @ concat (replicate 6 [GetBreakoutRooms sid, Sleep 1000]))"
    by (simp add: via legacyFallback_def)
qed


theorem legacy_retry_then_poll_witness:
  "truthy (authToken ackEnv) \<and> tokenValid ackEnv \<and>
   \<not> (b_success (backendRes ackEnv) \<and> b_room (backendRes ackEnv) \<noteq> None) \<and>
   apiRes ackEnv = ApiFailure (Some ''HTTP 404: Not Found'') \<and>
   matches404 ''HTTP 404: Not Found'' \<and>
   legacyResp ackEnv = LegacyResponse False 500 ''Internal Server Error'' None \<and>
   createRoomViaAPI ackEnv ''s1'' focusConfig =
     (Inr (Success (Some focusRoom)),
      [BackendCreateBreakoutRoom ''s1'' (c_name focusConfig),
       ApiCreateBreakoutRoom ''s1'' (c_name focusConfig),
       FetchLegacyCreate ''s1'' (c_name focusConfig),
       GetBreakoutRooms ''s1'', Sleep 1000, GetBreakoutRooms ''s1''])"
proof -
  have tok: "truthy (authToken ackEnv)" and val: "tokenValid ackEnv"
    and bres: "\<not> (b_success (backendRes ackEnv) \<and> b_room (backendRes ackEnv) \<noteq> None)"
    and api: "apiRes ackEnv = ApiFailure (Some ''HTTP 404: Not Found'')"
    and leg: "legacyResp ackEnv = LegacyResponse False 500 ''Internal Server Error'' None"
    by (simp_all add: ackEnv_def)
  have m: "matches404 ''HTTP 404: Not Found''" by (simp add: matches404_def)
  have second: "findByName (c_name focusConfig) (listAnswers ackEnv 1) = Some focusRoom"
    using other_name focus_name by (simp add: ackEnv_def)
  have first: "\<forall>j<1. findByName (c_name focusConfig) (listAnswers ackEnv j) = None"
    using other_name by (simp add: ackEnv_def)
  have one: "(1::nat) < 6" by simp
  from legacy_retry_then_poll [OF tok val bres api m, where status = 500
      and statusText = "''Internal Server Error''" and room = None and i = 1
      and cfg = focusConfig and m = focusRoom and sid = "''s1''"] leg one second first
  have "createRoomViaAPI ackEnv ''s1'' focusConfig =
         (Inr (Success (Some focusRoom)),
          [BackendCreateBreakoutRoom ''s1'' (c_name focusConfig),
           ApiCreateBreakoutRoom ''s1'' (c_name focusConfig),
           FetchLegacyCreate ''s1'' (c_name focusConfig)]
          @ concat (replicate 1 [GetBreakoutRooms ''s1'', Sleep 1000]) @ [GetBreakoutRooms ''s1''])"
    by blast
  then have "createRoomViaAPI ackEnv ''s1'' focusConfig =
     (Inr (Success (Some focusRoom)),
      [BackendCreateBreakoutRoom ''s1'' (c_name focusConfig),
       ApiCreateBreakoutRoom ''s1'' (c_name focusConfig),
       FetchLegacyCreate ''s1'' (c_name focusConfig),
       GetBreakoutRooms ''s1'', Sleep 1000, GetBreakoutRooms ''s1''])"
    by simp
  with tok val bres api m leg show ?thesis by blast
qed

end
